theory Spec2Isabelle
  imports Complex_Main "HOL-Library.Multiset" "HOL-Library.Log_Nat"
begin

section \<open>JavaScript values and array primitives\<close>

text \<open>
  The repository is TypeScript. Counters are natural numbers and clock readings
  (milliseconds) are integers. The other JavaScript numbers are reals that hold the value
  of a double. In the health check and the ledger the arithmetic on them is exact; in the
  pattern learner, whose rate is fed back into the next update, every arithmetic result
  is rounded to the nearest double (\<open>fl64\<close> below).
  Every reading of the clock and every fresh identifier (\<^verbatim>\<open>Date.now()\<close>,
  \<^verbatim>\<open>new Date()\<close>, \<^verbatim>\<open>randomUUID()\<close>, \<^verbatim>\<open>Math.random()\<close>) is an
  explicit argument of the function that takes it.
\<close>

datatype jsval =
    JUndefined
  | JNull
  | JBool bool
  | JNum real
  | JStr string
  | JObj "(string \<times> jsval) list"

text \<open>A thrown \<^verbatim>\<open>Error\<close>: its \<^verbatim>\<open>name\<close> and its \<^verbatim>\<open>message\<close>.\<close>

record js_error =
  err_name :: string
  err_message :: string

text \<open>\<^verbatim>\<open>String(error)\<close>, that is \<^verbatim>\<open>Error.prototype.toString\<close>.\<close>

definition error_to_string :: "js_error \<Rightarrow> string" where
  "error_to_string e =
     (if err_name e = [] then err_message e
      else if err_message e = [] then err_name e
      else err_name e @ '': '' @ err_message e)"

text \<open>How a call settles: it returns a value or throws.\<close>

datatype 'a outcome = Returns 'a | Throws js_error

text \<open>
  \<^verbatim>\<open>xs.slice(start, end)\<close> on integer arguments: a negative index counts from the end
  of the array, and both are clamped to the array.
\<close>

definition js_slice :: "'a list \<Rightarrow> int \<Rightarrow> int \<Rightarrow> 'a list" where
  "js_slice xs start fin =
     (let len = int (length xs);
          k = (if start < 0 then max (len + start) 0 else min start len);
          final = (if fin < 0 then max (len + fin) 0 else min fin len)
      in take (nat (final - k)) (drop (nat k) xs))"

text \<open>
  \<^verbatim>\<open>xs.sort(cmp)\<close>: the sort of ECMAScript is stable, and \<open>a\<close> stays before \<open>b\<close>
  unless \<open>cmp a b > 0\<close>. Each element is inserted in front of the first element it
  does not have to follow.
\<close>

fun js_insert :: "('a \<Rightarrow> 'a \<Rightarrow> real) \<Rightarrow> 'a \<Rightarrow> 'a list \<Rightarrow> 'a list" where
  "js_insert cmp x [] = [x]"
| "js_insert cmp x (y # ys) =
     (if cmp x y \<le> 0 then x # y # ys else y # js_insert cmp x ys)"

definition js_sort :: "('a \<Rightarrow> 'a \<Rightarrow> real) \<Rightarrow> 'a list \<Rightarrow> 'a list" where
  "js_sort cmp xs = foldr (js_insert cmp) xs []"

section \<open>Arithmetic on doubles\<close>

text \<open>
  A double is \<open>m * 2 ^ q\<close> with an integer \<open>m\<close> of at most 53 bits and \<open>q\<close> at least
  -1074. The result of an arithmetic operation of JavaScript is the exact result rounded
  to the nearest double, a tie going to the even \<open>m\<close> (IEEE 754 binary64, round to
  nearest even). \<open>exponent2 x\<close> is the exponent of the leading bit of a positive \<open>x\<close>.
  Results of magnitude \<open>2 ^ 1024\<close> and above (infinities), NaN and the sign of zero are
  not modelled; no operation below reaches them.
\<close>

definition exponent2 :: "real \<Rightarrow> int" where
  "exponent2 x =
     (if 1 \<le> x then int (floorlog 2 (nat \<lfloor>x\<rfloor>)) - 1
      else - int (floorlog 2 (nat (\<lceil>1 / x\<rceil> - 1))))"

definition scale2 :: "real \<Rightarrow> int \<Rightarrow> real" where
  "scale2 x q = (if 0 \<le> q then x * 2 ^ nat q else x / 2 ^ nat (- q))"

definition round_even :: "real \<Rightarrow> int" where
  "round_even m =
     (let n = \<lfloor>m\<rfloor>; r = m - of_int n
      in if r < 1 / 2 then n else if r > 1 / 2 then n + 1 else if even n then n else n + 1)"

definition fl64 :: "real \<Rightarrow> real" where
  "fl64 x =
     (if x = 0 then 0
      else (let q = max (exponent2 \<bar>x\<bar> - 52) (- 1074)
            in sgn x * scale2 (of_int (round_even (scale2 \<bar>x\<bar> (- q)))) q))"

definition js_add :: "real \<Rightarrow> real \<Rightarrow> real" where
  "js_add a b = fl64 (a + b)"

definition js_mul :: "real \<Rightarrow> real \<Rightarrow> real" where
  "js_mul a b = fl64 (a * b)"

text \<open>\<^verbatim>\<open>a / b\<close> for a divisor other than 0.\<close>

definition js_div :: "real \<Rightarrow> real \<Rightarrow> real" where
  "js_div a b = fl64 (a / b)"

section \<open>types.ts\<close>

datatype EnhancementLevel = BASELINE | ENHANCED | EXCEPTIONAL | TRANSFORMATIVE

fun level_value :: "EnhancementLevel \<Rightarrow> real" where
  "level_value BASELINE = 100"
| "level_value ENHANCED = 110"
| "level_value EXCEPTIONAL = 120"
| "level_value TRANSFORMATIVE = 150"

datatype OperationStatus = PENDING | IN_PROGRESS | SUCCESS | FAILED | STATUS_ENHANCED

datatype Priority = LOW | MEDIUM | HIGH | CRITICAL

record Enhancement =
  enh_id :: string
  enh_description :: string
  enh_impact :: EnhancementLevel
  enh_priority :: Priority
  enh_timestamp :: int
  enh_metadata :: "jsval option"

record Recommendation =
  rec_id :: string
  rec_title :: string
  rec_description :: string
  rec_priority :: Priority
  estimatedImpact :: real
  category :: string
  actionable :: bool
  rec_timestamp :: int

record ResultMetadata =
  executionTime :: int
  res_timestamp :: int
  version :: string

record OperationResult =
  success :: bool
  status :: OperationStatus
  data :: jsval
  enhancements :: "Enhancement list"
  recommendations :: "Recommendation list"
  res_metadata :: ResultMetadata

record ProtocolConfig =
  minEnhancementLevel :: EnhancementLevel
  enableSelfHealing :: bool
  enableSelfLearning :: bool
  enableContinuousImprovement :: bool
  monitoringInterval :: int
  maxRecommendations :: int

record HealthMetrics =
  hm_uptime :: int
  enhancementRate :: real
  hm_successRate :: real
  averageExecutionTime :: real

record HealthCheck =
  healthy :: bool
  hc_status :: string
  hc_timestamp :: int
  hc_metrics :: HealthMetrics
  issues :: "string list option"

record SystemMetrics =
  totalOperations :: nat
  successfulOperations :: nat
  failedOperations :: nat
  enhancedOperations :: nat
  averageEnhancementLevel :: real
  totalRecommendations :: nat
  implementedRecommendations :: nat
  uptime :: int
  lastUpdate :: int

section \<open>core.ts\<close>

record EnhancementTracker =
  tracker_enhancements :: "Enhancement list"

record RecommendationEngine =
  engine_recommendations :: "Recommendation list"

text \<open>
  \<open>createEnhancement\<close> and \<open>createRecommendation\<close> take the fresh identifier and the
  current time, append the new record to the ledger and return it.
\<close>

definition createEnhancement ::
  "EnhancementTracker \<Rightarrow> string \<Rightarrow> int \<Rightarrow> string \<Rightarrow> EnhancementLevel \<Rightarrow> Priority \<Rightarrow>
   jsval option \<Rightarrow> Enhancement \<times> EnhancementTracker" where
  "createEnhancement tr uuid now description impact priority metadata =
     (let enhancement = \<lparr>enh_id = uuid, enh_description = description, enh_impact = impact,
            enh_priority = priority, enh_timestamp = now, enh_metadata = metadata\<rparr>
      in (enhancement, tr\<lparr>tracker_enhancements := tracker_enhancements tr @ [enhancement]\<rparr>))"

definition getEnhancements :: "EnhancementTracker \<Rightarrow> Enhancement list" where
  "getEnhancements tr = tracker_enhancements tr"

definition getAverageEnhancementLevel :: "EnhancementTracker \<Rightarrow> real" where
  "getAverageEnhancementLevel tr =
     (if length (tracker_enhancements tr) = 0 then level_value BASELINE
      else (let sum = foldl (\<lambda>acc e. acc + level_value (enh_impact e)) 0 (tracker_enhancements tr)
            in sum / real (length (tracker_enhancements tr))))"

definition createRecommendation ::
  "RecommendationEngine \<Rightarrow> string \<Rightarrow> int \<Rightarrow> string \<Rightarrow> string \<Rightarrow> Priority \<Rightarrow> real \<Rightarrow> string \<Rightarrow>
   bool \<Rightarrow> Recommendation \<times> RecommendationEngine" where
  "createRecommendation eng uuid now title description priority impact cat act =
     (let recommendation = \<lparr>rec_id = uuid, rec_title = title, rec_description = description,
            rec_priority = priority, estimatedImpact = impact, category = cat,
            actionable = act, rec_timestamp = now\<rparr>
      in (recommendation,
          eng\<lparr>engine_recommendations := engine_recommendations eng @ [recommendation]\<rparr>))"

definition getRecommendations :: "RecommendationEngine \<Rightarrow> Recommendation list" where
  "getRecommendations eng = engine_recommendations eng"

text \<open>
  \<open>getTopRecommendations\<close> sorts a copy of the ledger in place and slices the copy; the
  engine it returns is the engine after the call.
\<close>

definition getTopRecommendations ::
  "RecommendationEngine \<Rightarrow> int \<Rightarrow> Recommendation list \<times> RecommendationEngine" where
  "getTopRecommendations eng limit =
     (let copy = engine_recommendations eng;
          sorted = js_sort (\<lambda>a b. estimatedImpact b - estimatedImpact a) copy
      in (js_slice sorted 0 limit, eng))"

definition createSuccessResult ::
  "jsval \<Rightarrow> Enhancement list \<Rightarrow> Recommendation list \<Rightarrow> int \<Rightarrow> OperationResult" where
  "createSuccessResult d enhs recs now =
     \<lparr>success = True,
      status = (if length enhs > 0 then STATUS_ENHANCED else SUCCESS),
      data = d, enhancements = enhs, recommendations = recs,
      res_metadata = \<lparr>executionTime = 0, res_timestamp = now, version = ''1.0.0''\<rparr>\<rparr>"

section \<open>self-healing.ts\<close>

text \<open>
  The built-in error patterns are alternations of literal ASCII words under the flag
  \<^verbatim>\<open>i\<close>: \<^verbatim>\<open>pattern.test(text)\<close> holds when one of the words occurs somewhere in
  the text, letters compared without regard to case. Two characters are compared by the
  code of their upper-case form; only the letters a to z (codes 97 to 122) have an
  upper-case form among the ASCII characters that differs from them.
\<close>

definition canonicalize :: "char \<Rightarrow> nat" where
  "canonicalize c =
     (let n = (of_char c :: nat) in if 97 \<le> n \<and> n \<le> 122 then n - 32 else n)"

fun matches_at :: "string \<Rightarrow> string \<Rightarrow> bool" where
  "matches_at [] text = True"
| "matches_at (p # ps) [] = False"
| "matches_at (p # ps) (c # cs) = (canonicalize p = canonicalize c \<and> matches_at ps cs)"

fun occurs_in :: "string \<Rightarrow> string \<Rightarrow> bool" where
  "occurs_in word [] = matches_at word []"
| "occurs_in word (c # cs) = (matches_at word (c # cs) \<or> occurs_in word cs)"

definition regex_test :: "string list \<Rightarrow> string \<Rightarrow> bool" where
  "regex_test alternatives text = list_ex (\<lambda>word. occurs_in word text) alternatives"

record HealingStrategy =
  strat_id :: string
  strat_name :: string
  strat_description :: string
  strat_priority :: Priority
  errorPattern :: "string \<Rightarrow> bool"
  healingAction :: "unit \<Rightarrow> bool outcome"

record HealingAttempt =
  att_id :: string
  att_timestamp :: int
  errorType :: string
  strategyUsed :: string
  att_success :: bool
  recoveryTime :: int

record SelfHealingSystem =
  strategies :: "HealingStrategy list"
  healingHistory :: "HealingAttempt list"

fun priorityOrder :: "Priority \<Rightarrow> real" where
  "priorityOrder CRITICAL = 0"
| "priorityOrder HIGH = 1"
| "priorityOrder MEDIUM = 2"
| "priorityOrder LOW = 3"

definition registerStrategy :: "SelfHealingSystem \<Rightarrow> HealingStrategy \<Rightarrow> SelfHealingSystem" where
  "registerStrategy sys strategy =
     sys\<lparr>strategies :=
       js_sort (\<lambda>a b. priorityOrder (strat_priority a) - priorityOrder (strat_priority b))
         (strategies sys @ [strategy])\<rparr>"

text \<open>
  The three built-in strategies. Each action waits (1 s, 0.5 s, 5 s) and then resolves
  to true; the wait is not modelled.
\<close>

definition network_retry :: HealingStrategy where
  "network_retry =
     \<lparr>strat_id = ''network-retry'', strat_name = ''Network Retry'',
      strat_description = ''Retry operations that failed due to network issues'',
      strat_priority = HIGH,
      errorPattern = regex_test [''network'', ''timeout'', ''ECONNREFUSED'', ''ETIMEDOUT''],
      healingAction = (\<lambda>_. Returns True)\<rparr>"

definition resource_cleanup :: HealingStrategy where
  "resource_cleanup =
     \<lparr>strat_id = ''resource-cleanup'', strat_name = ''Resource Cleanup'',
      strat_description = ''Clean up resources and retry'',
      strat_priority = HIGH,
      errorPattern = regex_test [''memory'', ''ENOMEM'', ''EMFILE'', ''too many''],
      healingAction = (\<lambda>_. Returns True)\<rparr>"

definition rate_limit_backoff :: HealingStrategy where
  "rate_limit_backoff =
     \<lparr>strat_id = ''rate-limit-backoff'', strat_name = ''Rate Limit Backoff'',
      strat_description = ''Wait and retry when rate limited'',
      strat_priority = MEDIUM,
      errorPattern = regex_test [''rate limit'', ''429'', ''too many requests''],
      healingAction = (\<lambda>_. Returns True)\<rparr>"

definition initializeDefaultStrategies :: "SelfHealingSystem \<Rightarrow> SelfHealingSystem" where
  "initializeDefaultStrategies sys =
     registerStrategy (registerStrategy (registerStrategy sys network_retry) resource_cleanup)
       rate_limit_backoff"

definition new_SelfHealingSystem :: SelfHealingSystem where
  "new_SelfHealingSystem = initializeDefaultStrategies \<lparr>strategies = [], healingHistory = []\<rparr>"

text \<open>
  \<open>recordAttempt\<close> pushes the attempt and shifts the oldest one out once the history
  is longer than 100.
\<close>

definition recordAttempt ::
  "SelfHealingSystem \<Rightarrow> string \<Rightarrow> int \<Rightarrow> string \<Rightarrow> string \<Rightarrow> bool \<Rightarrow> int \<Rightarrow> SelfHealingSystem" where
  "recordAttempt sys fresh now errType used ok time =
     (let pushed = healingHistory sys @
            [\<lparr>att_id = fresh, att_timestamp = now, errorType = errType, strategyUsed = used,
              att_success = ok, recoveryTime = time\<rparr>]
      in sys\<lparr>healingHistory := (if length pushed > 100 then tl pushed else pushed)\<rparr>)"

text \<open>What one call of \<open>heal\<close> reads from its environment.\<close>

record HealEnv =
  heal_start :: int
  heal_end :: int
  heal_fresh :: string
  heal_now :: int

definition errorText :: "js_error \<Rightarrow> string" where
  "errorText error = (if err_message error \<noteq> [] then err_message error else error_to_string error)"

definition heal :: "SelfHealingSystem \<Rightarrow> HealEnv \<Rightarrow> js_error \<Rightarrow> bool \<times> SelfHealingSystem" where
  "heal sys env error =
     (let startTime = heal_start env;
          errorMessage = errorText error
      in case find (\<lambda>s. errorPattern s errorMessage) (strategies sys) of
           None \<Rightarrow>
             (False, recordAttempt sys (heal_fresh env) (heal_now env) errorMessage ''none'' False
                       (heal_end env - startTime))
         | Some strategy \<Rightarrow>
             (case healingAction strategy () of
                Returns ok \<Rightarrow>
                  (ok, recordAttempt sys (heal_fresh env) (heal_now env) errorMessage
                         (strat_name strategy) ok (heal_end env - startTime))
              | Throws _ \<Rightarrow>
                  (False, recordAttempt sys (heal_fresh env) (heal_now env) errorMessage
                            (strat_name strategy) False (heal_end env - startTime))))"

text \<open>A sequence of \<open>heal\<close> calls, one after the other, on the same system.\<close>

fun heal_all :: "SelfHealingSystem \<Rightarrow> (HealEnv \<times> js_error) list \<Rightarrow> SelfHealingSystem" where
  "heal_all sys [] = sys"
| "heal_all sys (c # cs) = heal_all (snd (heal sys (fst c) (snd c))) cs"

definition getHistory :: "SelfHealingSystem \<Rightarrow> HealingAttempt list" where
  "getHistory sys = healingHistory sys"

section \<open>self-learning.ts\<close>

record LearningPattern =
  pat_id :: string
  pattern :: string
  frequency :: nat
  successRate :: real
  lastSeen :: int
  pat_metadata :: "(string \<rightharpoonup> jsval) option"






section \<open>protocol.ts\<close>

record Protocol110System =
  config :: ProtocolConfig
  enhancementTracker :: EnhancementTracker
  recommendationEngine :: RecommendationEngine
  startTime :: int
  metrics :: SystemMetrics

text \<open>
  Modelled from the spec: the Logger collaborator (\<^verbatim>\<open>src/logger.ts\<close> is not among the
  sources) "accepts \<^verbatim>\<open>info(message, context?)\<close> and \<^verbatim>\<open>error(message, context?)\<close>;
  failures in logging must never affect pipeline outcome". A log call returns and
  leaves the system as it is.
\<close>

definition logger_info :: "Protocol110System \<Rightarrow> string \<Rightarrow> Protocol110System" where
  "logger_info sys message = sys"

definition logger_error :: "Protocol110System \<Rightarrow> string \<Rightarrow> Protocol110System" where
  "logger_error sys message = sys"

text \<open>The optional fields of \<^verbatim>\<open>Partial<ProtocolConfig>\<close>; \<open>None\<close> is a field left out.\<close>

record PartialConfig =
  p_minEnhancementLevel :: "EnhancementLevel option"
  p_enableSelfHealing :: "bool option"
  p_enableSelfLearning :: "bool option"
  p_enableContinuousImprovement :: "bool option"
  p_monitoringInterval :: "int option"
  p_maxRecommendations :: "int option"

definition initializeMetrics :: "int \<Rightarrow> SystemMetrics" where
  "initializeMetrics now =
     \<lparr>totalOperations = 0, successfulOperations = 0, failedOperations = 0,
      enhancedOperations = 0, averageEnhancementLevel = level_value BASELINE,
      totalRecommendations = 0, implementedRecommendations = 0, uptime = 0,
      lastUpdate = now\<rparr>"

text \<open>
  The constructor: \<^verbatim>\<open>??\<close> replaces a missing field only, \<^verbatim>\<open>||\<close> also replaces the
  number 0.
\<close>

definition new_Protocol110System :: "PartialConfig \<Rightarrow> int \<Rightarrow> Protocol110System" where
  "new_Protocol110System c now =
     logger_info
       \<lparr>config =
          \<lparr>minEnhancementLevel = (case p_minEnhancementLevel c of Some l \<Rightarrow> l | None \<Rightarrow> ENHANCED),
           enableSelfHealing = (case p_enableSelfHealing c of Some b \<Rightarrow> b | None \<Rightarrow> True),
           enableSelfLearning = (case p_enableSelfLearning c of Some b \<Rightarrow> b | None \<Rightarrow> True),
           enableContinuousImprovement =
             (case p_enableContinuousImprovement c of Some b \<Rightarrow> b | None \<Rightarrow> True),
           monitoringInterval =
             (case p_monitoringInterval c of Some n \<Rightarrow> (if n = 0 then 60000 else n) | None \<Rightarrow> 60000),
           maxRecommendations =
             (case p_maxRecommendations c of Some n \<Rightarrow> (if n = 0 then 50 else n) | None \<Rightarrow> 50)\<rparr>,
        enhancementTracker = \<lparr>tracker_enhancements = []\<rparr>,
        recommendationEngine = \<lparr>engine_recommendations = []\<rparr>,
        startTime = now,
        metrics = initializeMetrics now\<rparr>
       ''110% Protocol System initialized''"

text \<open>
  What one call of \<open>execute\<close> reads from its environment: the clock on entry, the clock
  once the operation has settled, and the identifiers of the records it may create.
\<close>

record ExecEnv =
  exec_start :: int
  exec_now :: int
  uuid_enhancement :: string
  uuid_validation :: string
  uuid_performance :: string
  uuid_monitoring :: string
  uuid_healing :: string

definition applyEnhancements ::
  "Protocol110System \<Rightarrow> ExecEnv \<Rightarrow> string \<Rightarrow> jsval \<Rightarrow> Enhancement list \<times> Protocol110System" where
  "applyEnhancements sys env operationName result =
     (if \<not> enableContinuousImprovement (config sys) then ([], sys)
      else
        (let (enhancement, tr1) =
               createEnhancement (enhancementTracker sys) (uuid_enhancement env) (exec_now env)
                 (''Enhanced '' @ operationName @ '' with 110% protocol'') ENHANCED MEDIUM
                 (Some (JObj [(''operationName'', JStr operationName), (''result'', result)]));
             enhs1 = [enhancement]
         in if result \<noteq> JNull \<and> result \<noteq> JUndefined then
              (let (additionalEnhancement, tr2) =
                     createEnhancement tr1 (uuid_validation env) (exec_now env)
                       ''Result validation and optimization applied'' EXCEPTIONAL LOW
                       (Some (JObj [(''validated'', JBool True)]))
               in (enhs1 @ [additionalEnhancement], sys\<lparr>enhancementTracker := tr2\<rparr>))
            else (enhs1, sys\<lparr>enhancementTracker := tr1\<rparr>)))"

definition generateRecommendations ::
  "Protocol110System \<Rightarrow> ExecEnv \<Rightarrow> string \<Rightarrow> jsval \<Rightarrow> Recommendation list \<times> Protocol110System" where
  "generateRecommendations sys env operationName result =
     (if \<not> enableContinuousImprovement (config sys) then ([], sys)
      else
        (let (perfRecommendation, eng1) =
               createRecommendation (recommendationEngine sys) (uuid_performance env) (exec_now env)
                 ''Optimize Performance''
                 (''Consider caching results for '' @ operationName @ '' to improve performance'')
                 MEDIUM 75 ''performance'' True;
             (monitoringRecommendation, eng2) =
               createRecommendation eng1 (uuid_monitoring env) (exec_now env)
                 ''Enhanced Monitoring''
                 (''Add detailed metrics tracking for '' @ operationName)
                 LOW 50 ''monitoring'' True;
             recs = [perfRecommendation, monitoringRecommendation];
             sys1 = sys\<lparr>recommendationEngine := eng2,
                     metrics := (metrics sys)\<lparr>totalRecommendations :=
                       totalRecommendations (metrics sys) + length recs\<rparr>\<rparr>
         in (js_slice recs 0 (maxRecommendations (config sys1)), sys1)))"

text \<open>
  \<open>attemptSelfHealing\<close> creates the healing recommendation and returns a success
  result. Its \<^verbatim>\<open>catch\<close> branch rethrows the error; nothing in its \<^verbatim>\<open>try\<close> block
  throws.
\<close>

definition attemptSelfHealing ::
  "Protocol110System \<Rightarrow> ExecEnv \<Rightarrow> js_error \<Rightarrow> string \<Rightarrow>
   (js_error + OperationResult) \<times> Protocol110System" where
  "attemptSelfHealing sys env error operationName =
     (let sys1 = logger_info sys (''Attempting self-healing for: '' @ operationName);
          (recommendation, eng1) =
            createRecommendation (recommendationEngine sys1) (uuid_healing env) (exec_now env)
              ''Self-Healing Action''
              (''Implemented recovery procedure for '' @ operationName)
              HIGH 90 ''self-healing'' True;
          sys2 = logger_info (sys1\<lparr>recommendationEngine := eng1\<rparr>)
                   ''Self-healing completed successfully''
      in (Inr (createSuccessResult
                 (JObj [(''healed'', JBool True), (''originalError'', JStr (error_to_string error))])
                 [] [recommendation] (exec_now env)),
          sys2))"

definition updateMetrics :: "Protocol110System \<Rightarrow> int \<Rightarrow> Protocol110System" where
  "updateMetrics sys now =
     sys\<lparr>metrics := (metrics sys)
       \<lparr>uptime := now - startTime sys,
        lastUpdate := now,
        averageEnhancementLevel := getAverageEnhancementLevel (enhancementTracker sys)\<rparr>\<rparr>"

text \<open>
  \<open>execute\<close>: the operation is given by the way it settles. The result is the value
  returned to the caller (\<open>Inr\<close>) or the error thrown to the caller (\<open>Inl\<close>), with the
  system after the call.
\<close>

definition execute ::
  "Protocol110System \<Rightarrow> ExecEnv \<Rightarrow> jsval outcome \<Rightarrow> string \<Rightarrow>
   (js_error + OperationResult) \<times> Protocol110System" where
  "execute sys env operation operationName =
     (let sys0 = sys\<lparr>metrics := (metrics sys)\<lparr>totalOperations := totalOperations (metrics sys) + 1\<rparr>\<rparr>;
          sys1 = logger_info sys0 (''Executing operation: '' @ operationName)
      in case operation of
           Returns result \<Rightarrow>
             (let (enhs, sys2) = applyEnhancements sys1 env operationName result;
                  (recs, sys3) = generateRecommendations sys2 env operationName result;
                  sys4 = sys3\<lparr>metrics := (metrics sys3)
                           \<lparr>successfulOperations := successfulOperations (metrics sys3) + 1\<rparr>\<rparr>;
                  sys5 = (if length enhs > 0
                          then sys4\<lparr>metrics := (metrics sys4)
                                 \<lparr>enhancedOperations := enhancedOperations (metrics sys4) + 1\<rparr>\<rparr>
                          else sys4);
                  sys6 = updateMetrics sys5 (exec_now env);
                  elapsed = exec_now env - exec_start env;
                  operationResult = createSuccessResult result enhs recs (exec_now env);
                  operationResult1 = operationResult
                    \<lparr>res_metadata := (res_metadata operationResult)\<lparr>executionTime := elapsed\<rparr>\<rparr>;
                  sys7 = logger_info sys6 (''Operation completed: '' @ operationName)
              in (Inr operationResult1, sys7))
         | Throws error \<Rightarrow>
             (let sys2 = sys1\<lparr>metrics := (metrics sys1)
                           \<lparr>failedOperations := failedOperations (metrics sys1) + 1\<rparr>\<rparr>;
                  sys3 = updateMetrics sys2 (exec_now env);
                  sys4 = logger_error sys3 (''Operation failed: '' @ operationName)
              in if enableSelfHealing (config sys4) then
                   (case attemptSelfHealing sys4 env error operationName of
                      (Inr healingResult, sys5) \<Rightarrow>
                        (if success healingResult then (Inr healingResult, sys5)
                         else (Inl error, sys5))
                    | (Inl thrown, sys5) \<Rightarrow> (Inl thrown, sys5))
                 else (Inl error, sys4)))"

text \<open>A sequence of \<open>execute\<close> calls, one after the other, on the same system.\<close>

fun execute_all ::
  "Protocol110System \<Rightarrow> (ExecEnv \<times> jsval outcome \<times> string) list \<Rightarrow> Protocol110System" where
  "execute_all sys [] = sys"
| "execute_all sys (c # cs) =
     execute_all (snd (execute sys (fst c) (fst (snd c)) (snd (snd c)))) cs"

definition getHealthCheck :: "Protocol110System \<Rightarrow> int \<Rightarrow> HealthCheck \<times> Protocol110System" where
  "getHealthCheck sys now =
     (let sys1 = updateMetrics sys now;
          totalOps = (if totalOperations (metrics sys1) = 0 then 1 else totalOperations (metrics sys1));
          successRate = real (successfulOperations (metrics sys1)) / real totalOps * 100;
          enhRate = real (enhancedOperations (metrics sys1)) / real totalOps * 100;
          ok = (successRate \<ge> 80 \<and> uptime (metrics sys1) > 0)
      in (\<lparr>healthy = ok,
           hc_status = (if ok then ''healthy'' else ''degraded''),
           hc_timestamp = now,
           hc_metrics = \<lparr>hm_uptime = uptime (metrics sys1), enhancementRate = enhRate,
                          hm_successRate = successRate, averageExecutionTime = 0\<rparr>,
           issues = (if ok then None else Some [''Success rate below threshold''])\<rparr>,
          sys1))"

definition getMetrics :: "Protocol110System \<Rightarrow> int \<Rightarrow> SystemMetrics \<times> Protocol110System" where
  "getMetrics sys now = (let sys1 = updateMetrics sys now in (metrics sys1, sys1))"

definition protocol_getRecommendations :: "Protocol110System \<Rightarrow> Recommendation list" where
  "protocol_getRecommendations sys = getRecommendations (recommendationEngine sys)"

definition protocol_getTopRecommendations ::
  "Protocol110System \<Rightarrow> int \<Rightarrow> Recommendation list \<times> Protocol110System" where
  "protocol_getTopRecommendations sys limit =
     (let (top, eng) = getTopRecommendations (recommendationEngine sys) limit
      in (top, sys\<lparr>recommendationEngine := eng\<rparr>))"

section \<open>api.ts\<close>

record 'a ApiResponse =
  api_success :: bool
  api_data :: "'a option"
  api_error :: "string option"
  api_timestamp :: int

record ProtocolApiController =
  protocol :: Protocol110System

text \<open>
  \<open>api_getRecommendations\<close>: the optional \<open>limit\<close> is \<open>None\<close> when the argument is
  left out. The condition \<^verbatim>\<open>limit ? ... : ...\<close> takes the first branch when the limit
  is a number other than 0. Neither branch throws, so the \<^verbatim>\<open>catch\<close> block is not
  reached.
\<close>

definition api_getRecommendations ::
  "ProtocolApiController \<Rightarrow> int \<Rightarrow> int option \<Rightarrow>
   Recommendation list ApiResponse \<times> ProtocolApiController" where
  "api_getRecommendations api now limit =
     (let (recs, sys1) =
            (case limit of
               Some n \<Rightarrow>
                 (if n \<noteq> 0 then protocol_getTopRecommendations (protocol api) n
                  else (protocol_getRecommendations (protocol api), protocol api))
             | None \<Rightarrow> (protocol_getRecommendations (protocol api), protocol api))
      in (\<lparr>api_success = True, api_data = Some recs, api_error = None, api_timestamp = now\<rparr>,
          api\<lparr>protocol := sys1\<rparr>))"

section \<open>Sample inputs\<close>

text \<open>
  The two recommendations \<open>generateRecommendations\<close> creates, by name.
\<close>

definition perfRecommendation :: "ExecEnv \<Rightarrow> string \<Rightarrow> Recommendation" where
  "perfRecommendation env name =
     \<lparr>rec_id = uuid_performance env, rec_title = ''Optimize Performance'',
      rec_description = ''Consider caching results for '' @ name @ '' to improve performance'',
      rec_priority = MEDIUM, estimatedImpact = 75, category = ''performance'',
      actionable = True, rec_timestamp = exec_now env\<rparr>"

definition monitoringRecommendation :: "ExecEnv \<Rightarrow> string \<Rightarrow> Recommendation" where
  "monitoringRecommendation env name =
     \<lparr>rec_id = uuid_monitoring env, rec_title = ''Enhanced Monitoring'',
      rec_description = ''Add detailed metrics tracking for '' @ name,
      rec_priority = LOW, estimatedImpact = 50, category = ''monitoring'',
      actionable = True, rec_timestamp = exec_now env\<rparr>"

text \<open>
  \<^verbatim>\<open>new Protocol110System()\<close> and its variants with one option set, an environment
  for one call, and the inputs of the repository's tests.
\<close>

definition no_options :: PartialConfig where
  "no_options =
     \<lparr>p_minEnhancementLevel = None, p_enableSelfHealing = None, p_enableSelfLearning = None,
      p_enableContinuousImprovement = None, p_monitoringInterval = None,
      p_maxRecommendations = None\<rparr>"

definition sample_env :: ExecEnv where
  "sample_env =
     \<lparr>exec_start = 1000, exec_now = 1005, uuid_enhancement = ''e1'', uuid_validation = ''e2'',
      uuid_performance = ''r1'', uuid_monitoring = ''r2'', uuid_healing = ''r3''\<rparr>"

definition test_error :: js_error where
  "test_error = \<lparr>err_name = ''Error'', err_message = ''Test error''\<rparr>"

definition sample_heal_env :: HealEnv where
  "sample_heal_env = \<lparr>heal_start = 1000, heal_end = 1001, heal_fresh = ''h1'', heal_now = 1001\<rparr>"

text \<open>The engine of the test "RecommendationEngine - getTopRecommendations".\<close>

definition test_engine :: RecommendationEngine where
  "test_engine =
     snd (createRecommendation
       (snd (createRecommendation
         (snd (createRecommendation \<lparr>engine_recommendations = []\<rparr>
                 ''a'' 1 ''Low Impact'' ''Test'' LOW 30 ''test'' True))
         ''b'' 2 ''High Impact'' ''Test'' HIGH 95 ''test'' True))
       ''c'' 3 ''Medium Impact'' ''Test'' MEDIUM 60 ''test'' True)"

text \<open>Two systems after a few calls, for the health check.\<close>

definition degraded_system :: Protocol110System where
  "degraded_system =
     execute_all (new_Protocol110System (no_options\<lparr>p_enableSelfHealing := Some False\<rparr>) 0)
       [(sample_env, Returns (JStr ''ok''), ''op1''),
        (sample_env, Throws test_error, ''op2''),
        (sample_env, Throws test_error, ''op3'')]"

definition healthy_system :: Protocol110System where
  "healthy_system =
     execute_all (new_Protocol110System no_options 0)
       [(sample_env, Returns (JStr ''ok''), ''op1''),
        (sample_env, Returns (JStr ''ok''), ''op2'')]"

text \<open>The controller of the test "ProtocolApiController - get recommendations".\<close>

definition test_api :: ProtocolApiController where
  "test_api =
     \<lparr>protocol = snd (execute (new_Protocol110System no_options 0) sample_env
                        (Returns (JStr ''test'')) ''test-op'')\<rparr>"

text \<open>
  The error of the test "heal unknown error", and a strategy of the highest priority
  whose action throws.
\<close>

definition unknown_error :: js_error where
  "unknown_error = \<lparr>err_name = ''Error'', err_message = ''Some unknown error type''\<rparr>"

definition failing_strategy :: HealingStrategy where
  "failing_strategy =
     \<lparr>strat_id = ''critical-priority'', strat_name = ''Critical Priority'',
      strat_description = ''Critical priority strategy'', strat_priority = CRITICAL,
      errorPattern = regex_test [''test''],
      healingAction = (\<lambda>_. Throws \<lparr>err_name = ''Error'', err_message = ''cannot recover''\<rparr>)\<rparr>"




section \<open>Array primitives\<close>

lemma js_insert_desc:
  "js_insert (\<lambda>a b. f b - f a) x ys = insort_key (\<lambda>r. - f r) x ys"
  by (induction ys) auto

lemma js_sort_desc: "js_sort (\<lambda>a b. f b - f a) xs = sort_key (\<lambda>r. - f r) xs"
  by (induction xs) (simp_all add: js_sort_def js_insert_desc)

lemma js_insert_asc:
  "js_insert (\<lambda>a b. f a - f b) x ys = insort_key f x ys"
  by (induction ys) auto

lemma js_sort_asc: "js_sort (\<lambda>a b. f a - f b) xs = sort_key f xs"
  by (induction xs) (simp_all add: js_sort_def js_insert_asc)

lemma js_slice_take: "0 \<le> n \<Longrightarrow> js_slice xs 0 n = take (nat n) xs"
  by (auto simp: js_slice_def Let_def min_def)

lemma js_slice_length: "length (js_slice xs 0 n) \<le> length xs"
  by (auto simp: js_slice_def Let_def)

section \<open>The orchestrator\<close>

lemma applyEnhancements_result:
  "fst (applyEnhancements sys env name v) =
     (if \<not> enableContinuousImprovement (config sys) then []
      else \<lparr>enh_id = uuid_enhancement env,
             enh_description = ''Enhanced '' @ name @ '' with 110% protocol'',
             enh_impact = ENHANCED, enh_priority = MEDIUM, enh_timestamp = exec_now env,
             enh_metadata = Some (JObj [(''operationName'', JStr name), (''result'', v)])\<rparr>
           # (if v \<noteq> JNull \<and> v \<noteq> JUndefined
              then [\<lparr>enh_id = uuid_validation env,
                      enh_description = ''Result validation and optimization applied'',
                      enh_impact = EXCEPTIONAL, enh_priority = LOW, enh_timestamp = exec_now env,
                      enh_metadata = Some (JObj [(''validated'', JBool True)])\<rparr>]
              else []))"
  by (simp add: applyEnhancements_def createEnhancement_def Let_def)

lemma applyEnhancements_state:
  "snd (applyEnhancements sys env name v) =
     sys\<lparr>enhancementTracker := \<lparr>tracker_enhancements =
        tracker_enhancements (enhancementTracker sys) @ fst (applyEnhancements sys env name v)\<rparr>\<rparr>"
  by (simp add: applyEnhancements_def createEnhancement_def Let_def)

lemma generateRecommendations_result:
  "fst (generateRecommendations sys env name v) =
     (if \<not> enableContinuousImprovement (config sys) then []
      else js_slice [perfRecommendation env name, monitoringRecommendation env name] 0
             (maxRecommendations (config sys)))"
  by (simp add: generateRecommendations_def createRecommendation_def Let_def
        perfRecommendation_def monitoringRecommendation_def)

lemma generateRecommendations_state:
  "snd (generateRecommendations sys env name v) =
     (if \<not> enableContinuousImprovement (config sys) then sys
      else sys\<lparr>recommendationEngine := \<lparr>engine_recommendations =
                  engine_recommendations (recommendationEngine sys)
                    @ [perfRecommendation env name, monitoringRecommendation env name]\<rparr>,
               metrics := (metrics sys)\<lparr>totalRecommendations :=
                  totalRecommendations (metrics sys) + 2\<rparr>\<rparr>)"
  by (simp add: generateRecommendations_def createRecommendation_def Let_def
        perfRecommendation_def monitoringRecommendation_def)

text \<open>The two paths of \<open>execute\<close>, with the log calls and the pairs resolved.\<close>

lemma execute_Returns:
  "execute sys env (Returns v) name =
     (let sys1 = sys\<lparr>metrics := (metrics sys)\<lparr>totalOperations := totalOperations (metrics sys) + 1\<rparr>\<rparr>;
          enhs = fst (applyEnhancements sys1 env name v);
          sys2 = snd (applyEnhancements sys1 env name v);
          recs = fst (generateRecommendations sys2 env name v);
          sys3 = snd (generateRecommendations sys2 env name v);
          sys4 = sys3\<lparr>metrics := (metrics sys3)
                   \<lparr>successfulOperations := successfulOperations (metrics sys3) + 1\<rparr>\<rparr>;
          sys5 = (if length enhs > 0
                  then sys4\<lparr>metrics := (metrics sys4)
                         \<lparr>enhancedOperations := enhancedOperations (metrics sys4) + 1\<rparr>\<rparr>
                  else sys4)
      in (Inr ((createSuccessResult v enhs recs (exec_now env))
                \<lparr>res_metadata := \<lparr>executionTime = exec_now env - exec_start env,
                     res_timestamp = exec_now env, version = ''1.0.0''\<rparr>\<rparr>),
          updateMetrics sys5 (exec_now env)))"
  by (simp add: execute_def Let_def logger_info_def createSuccessResult_def split: prod.splits)

lemma execute_Throws:
  "execute sys env (Throws e) name =
     (let sys1 = sys\<lparr>metrics := (metrics sys)\<lparr>totalOperations := totalOperations (metrics sys) + 1\<rparr>\<rparr>;
          sys2 = sys1\<lparr>metrics := (metrics sys1)
                   \<lparr>failedOperations := failedOperations (metrics sys1) + 1\<rparr>\<rparr>;
          sys3 = updateMetrics sys2 (exec_now env)
      in if enableSelfHealing (config sys) then attemptSelfHealing sys3 env e name
         else (Inl e, sys3))"
  by (simp add: execute_def Let_def logger_info_def logger_error_def updateMetrics_def
        attemptSelfHealing_def createSuccessResult_def createRecommendation_def split: prod.splits)

lemma execute_total:
  "totalOperations (metrics (snd (execute sys env op name))) = totalOperations (metrics sys) + 1"
  by (cases op)
     (simp_all add: execute_Returns execute_Throws Let_def applyEnhancements_state
        generateRecommendations_state updateMetrics_def attemptSelfHealing_def
        logger_info_def createRecommendation_def split: prod.splits)

lemma execute_successful:
  "successfulOperations (metrics (snd (execute sys env op name))) =
     successfulOperations (metrics sys) + (case op of Returns _ \<Rightarrow> 1 | Throws _ \<Rightarrow> 0)"
  by (cases op)
     (simp_all add: execute_Returns execute_Throws Let_def applyEnhancements_state
        generateRecommendations_state updateMetrics_def attemptSelfHealing_def
        logger_info_def createRecommendation_def split: prod.splits)

lemma execute_failed:
  "failedOperations (metrics (snd (execute sys env op name))) =
     failedOperations (metrics sys) + (case op of Returns _ \<Rightarrow> 0 | Throws _ \<Rightarrow> 1)"
  by (cases op)
     (simp_all add: execute_Returns execute_Throws Let_def applyEnhancements_state
        generateRecommendations_state updateMetrics_def attemptSelfHealing_def
        logger_info_def createRecommendation_def split: prod.splits)

lemma execute_all_counts:
  "totalOperations (metrics (execute_all sys calls)) = totalOperations (metrics sys) + length calls
   \<and> successfulOperations (metrics (execute_all sys calls))
       + failedOperations (metrics (execute_all sys calls))
     = successfulOperations (metrics sys) + failedOperations (metrics sys) + length calls"
proof (induction calls arbitrary: sys)
  case Nil
  show ?case by simp
next
  case (Cons c cs)
  show ?case
    by (simp add: Cons.IH execute_total execute_successful execute_failed split: outcome.splits)
qed

lemma execute_healed:
  "enableSelfHealing (config sys) \<Longrightarrow>
     \<exists>r. fst (execute sys env (Throws e) name) = Inr r \<and> success r"
  by (simp add: execute_Throws Let_def attemptSelfHealing_def createSuccessResult_def
        createRecommendation_def logger_info_def)

lemma new_Protocol110System_config:
  "config (new_Protocol110System c now) =
     \<lparr>minEnhancementLevel = (case p_minEnhancementLevel c of Some l \<Rightarrow> l | None \<Rightarrow> ENHANCED),
      enableSelfHealing = (case p_enableSelfHealing c of Some b \<Rightarrow> b | None \<Rightarrow> True),
      enableSelfLearning = (case p_enableSelfLearning c of Some b \<Rightarrow> b | None \<Rightarrow> True),
      enableContinuousImprovement =
        (case p_enableContinuousImprovement c of Some b \<Rightarrow> b | None \<Rightarrow> True),
      monitoringInterval =
        (case p_monitoringInterval c of Some n \<Rightarrow> (if n = 0 then 60000 else n) | None \<Rightarrow> 60000),
      maxRecommendations =
        (case p_maxRecommendations c of Some n \<Rightarrow> (if n = 0 then 50 else n) | None \<Rightarrow> 50)\<rparr>"
  by (simp add: new_Protocol110System_def logger_info_def)

lemma new_Protocol110System_metrics:
  "metrics (new_Protocol110System c now) = initializeMetrics now"
  by (simp add: new_Protocol110System_def logger_info_def)

text \<open>
  Claim C2. For every operation that returns a value \<open>v\<close>: when continuous improvement
  is enabled, the result of \<open>execute\<close> holds one ENHANCED, MEDIUM enhancement described
  with the operation's name, followed by one EXCEPTIONAL, LOW enhancement exactly when
  \<open>v\<close> is neither null nor undefined; when it is disabled the result holds no
  enhancement and no recommendation. The enhancements of the result are the ones the
  call adds to the ledger.
\<close>

theorem execute_success_enhancements:
  "\<exists>r. fst (execute sys env (Returns v) name) = Inr r \<and> success r \<and> data r = v
     \<and> (enableContinuousImprovement (config sys) \<longrightarrow>
          map (\<lambda>e. (enh_impact e, enh_priority e)) (enhancements r) =
            (ENHANCED, MEDIUM) # (if v \<noteq> JNull \<and> v \<noteq> JUndefined then [(EXCEPTIONAL, LOW)] else [])
          \<and> enh_description (hd (enhancements r)) = ''Enhanced '' @ name @ '' with 110% protocol'')
     \<and> (\<not> enableContinuousImprovement (config sys) \<longrightarrow>
          enhancements r = [] \<and> recommendations r = [])
     \<and> tracker_enhancements (enhancementTracker (snd (execute sys env (Returns v) name)))
          = tracker_enhancements (enhancementTracker sys) @ enhancements r"
  by (simp add: execute_Returns Let_def createSuccessResult_def applyEnhancements_result
        applyEnhancements_state generateRecommendations_result generateRecommendations_state
        updateMetrics_def)

theorem execute_success_enhancements_witness:
  "enableContinuousImprovement (config (new_Protocol110System no_options 0))
   \<and> (\<exists>r. fst (execute (new_Protocol110System no_options 0) sample_env (Returns (JStr ''test''))
              ''test-op'') = Inr r
        \<and> map (\<lambda>e. (enh_impact e, enh_priority e)) (enhancements r)
            = [(ENHANCED, MEDIUM), (EXCEPTIONAL, LOW)])
   \<and> (\<exists>r. fst (execute (new_Protocol110System no_options 0) sample_env (Returns JNull)
              ''test-op'') = Inr r
        \<and> map (\<lambda>e. (enh_impact e, enh_priority e)) (enhancements r) = [(ENHANCED, MEDIUM)])
   \<and> \<not> enableContinuousImprovement
         (config (new_Protocol110System (no_options\<lparr>p_enableContinuousImprovement := Some False\<rparr>) 0))
   \<and> (\<exists>r. fst (execute
              (new_Protocol110System (no_options\<lparr>p_enableContinuousImprovement := Some False\<rparr>) 0)
              sample_env (Returns (JStr ''test'')) ''test-op'') = Inr r
        \<and> enhancements r = [] \<and> recommendations r = [])"
proof -
  have on: "enableContinuousImprovement (config (new_Protocol110System no_options 0))"
    by (simp add: new_Protocol110System_config no_options_def)
  have off: "\<not> enableContinuousImprovement
         (config (new_Protocol110System (no_options\<lparr>p_enableContinuousImprovement := Some False\<rparr>) 0))"
    by (simp add: new_Protocol110System_config no_options_def)
  show ?thesis
    using on off
      execute_success_enhancements [of "new_Protocol110System no_options 0" sample_env
        "JStr ''test''" "''test-op''"]
      execute_success_enhancements [of "new_Protocol110System no_options 0" sample_env
        JNull "''test-op''"]
      execute_success_enhancements
        [of "new_Protocol110System (no_options\<lparr>p_enableContinuousImprovement := Some False\<rparr>) 0"
          sample_env "JStr ''test''" "''test-op''"]
    by auto
qed

text \<open>
  Claim C3. For every operation that returns, with continuous improvement enabled,
  \<open>execute\<close> creates two recommendations: "Optimize Performance" (MEDIUM, impact 75,
  category performance) and "Enhanced Monitoring" (LOW, impact 50, category monitoring).
  Both are appended to the stored ledger and counted in \<open>totalRecommendations\<close>
  whatever \<open>maxRecommendations\<close> is; the list in the result has at most two entries
  and, for a limit that is not negative, is the first \<open>maxRecommendations\<close> of them.
\<close>

theorem execute_success_recommendations:
  assumes "enableContinuousImprovement (config sys)"
  shows "\<exists>r perf mon. fst (execute sys env (Returns v) name) = Inr r
     \<and> rec_title perf = ''Optimize Performance'' \<and> rec_priority perf = MEDIUM
     \<and> estimatedImpact perf = 75 \<and> category perf = ''performance''
     \<and> rec_title mon = ''Enhanced Monitoring'' \<and> rec_priority mon = LOW
     \<and> estimatedImpact mon = 50 \<and> category mon = ''monitoring''
     \<and> engine_recommendations (recommendationEngine (snd (execute sys env (Returns v) name)))
          = engine_recommendations (recommendationEngine sys) @ [perf, mon]
     \<and> totalRecommendations (metrics (snd (execute sys env (Returns v) name)))
          = totalRecommendations (metrics sys) + 2
     \<and> length (recommendations r) \<le> 2
     \<and> (0 \<le> maxRecommendations (config sys) \<longrightarrow>
          recommendations r = take (nat (maxRecommendations (config sys))) [perf, mon])"
proof -
  let ?perf = "perfRecommendation env name" and ?mon = "monitoringRecommendation env name"
  let ?r = "projr (fst (execute sys env (Returns v) name))"
  have r: "fst (execute sys env (Returns v) name) = Inr ?r"
    by (simp add: execute_Returns Let_def)
  have recs: "recommendations ?r = js_slice [?perf, ?mon] 0 (maxRecommendations (config sys))"
    using assms
    by (simp add: execute_Returns Let_def createSuccessResult_def applyEnhancements_state
          generateRecommendations_result)
  have ledger: "engine_recommendations (recommendationEngine (snd (execute sys env (Returns v) name)))
          = engine_recommendations (recommendationEngine sys) @ [?perf, ?mon]"
    using assms
    by (simp add: execute_Returns Let_def applyEnhancements_state generateRecommendations_state
          updateMetrics_def)
  have total: "totalRecommendations (metrics (snd (execute sys env (Returns v) name)))
          = totalRecommendations (metrics sys) + 2"
    using assms
    by (simp add: execute_Returns Let_def applyEnhancements_state generateRecommendations_state
          updateMetrics_def)
  have len: "length (recommendations ?r) \<le> 2"
    using js_slice_length[of "[?perf, ?mon]" "maxRecommendations (config sys)"] recs by simp
  have cap: "0 \<le> maxRecommendations (config sys) \<Longrightarrow>
          recommendations ?r = take (nat (maxRecommendations (config sys))) [?perf, ?mon]"
    using recs by (simp add: js_slice_take)
  have fields: "rec_title ?perf = ''Optimize Performance'' \<and> rec_priority ?perf = MEDIUM
     \<and> estimatedImpact ?perf = 75 \<and> category ?perf = ''performance''
     \<and> rec_title ?mon = ''Enhanced Monitoring'' \<and> rec_priority ?mon = LOW
     \<and> estimatedImpact ?mon = 50 \<and> category ?mon = ''monitoring''"
    by (simp add: perfRecommendation_def monitoringRecommendation_def)
  show ?thesis
    using r fields ledger total len cap by blast
qed

theorem execute_success_recommendations_witness:
  "enableContinuousImprovement
     (config (new_Protocol110System (no_options\<lparr>p_maxRecommendations := Some 1\<rparr>) 0))
   \<and> 0 \<le> maxRecommendations
            (config (new_Protocol110System (no_options\<lparr>p_maxRecommendations := Some 1\<rparr>) 0))
   \<and> (\<exists>r. fst (execute (new_Protocol110System (no_options\<lparr>p_maxRecommendations := Some 1\<rparr>) 0)
              sample_env (Returns (JStr ''test'')) ''test-op'') = Inr r
         \<and> map rec_title (recommendations r) = [''Optimize Performance''])
   \<and> map rec_title (engine_recommendations (recommendationEngine (snd
        (execute (new_Protocol110System (no_options\<lparr>p_maxRecommendations := Some 1\<rparr>) 0)
              sample_env (Returns (JStr ''test'')) ''test-op''))))
       = [''Optimize Performance'', ''Enhanced Monitoring'']"
proof -
  let ?sys = "new_Protocol110System (no_options\<lparr>p_maxRecommendations := Some 1\<rparr>) 0"
  have on: "enableContinuousImprovement (config ?sys)"
    by (simp add: new_Protocol110System_config no_options_def)
  have cap: "maxRecommendations (config ?sys) = 1"
    by (simp add: new_Protocol110System_config no_options_def)
  have empty: "engine_recommendations (recommendationEngine ?sys) = []"
    by (simp add: new_Protocol110System_def logger_info_def)
  show ?thesis
    using execute_success_recommendations [OF on, of sample_env "JStr ''test''" "''test-op''"]
      on cap empty
    by auto
qed

text \<open>
  Claim C4. Every call of \<open>execute\<close> adds exactly 1 to \<open>totalOperations\<close>, whether the
  operation returns, throws, or throws and is healed, and keeps \<open>totalOperations =
  successfulOperations + failedOperations\<close>. A healed failure adds 1 to
  \<open>failedOperations\<close> and nothing to \<open>successfulOperations\<close> although the caller gets a
  result with \<open>success = True\<close>. After any sequence of calls on a new system the total
  is the number of calls and the equation holds.
\<close>

theorem execute_counts:
  "totalOperations (metrics (snd (execute sys env op name))) = totalOperations (metrics sys) + 1
   \<and> (totalOperations (metrics sys)
         = successfulOperations (metrics sys) + failedOperations (metrics sys) \<longrightarrow>
       totalOperations (metrics (snd (execute sys env op name)))
         = successfulOperations (metrics (snd (execute sys env op name)))
           + failedOperations (metrics (snd (execute sys env op name))))
   \<and> (\<forall>e. op = Throws e \<and> enableSelfHealing (config sys) \<longrightarrow>
         (\<exists>r. fst (execute sys env op name) = Inr r \<and> success r)
         \<and> failedOperations (metrics (snd (execute sys env op name)))
             = failedOperations (metrics sys) + 1
         \<and> successfulOperations (metrics (snd (execute sys env op name)))
             = successfulOperations (metrics sys))
   \<and> totalOperations (metrics (execute_all (new_Protocol110System c t0) calls)) = length calls
   \<and> totalOperations (metrics (execute_all (new_Protocol110System c t0) calls))
       = successfulOperations (metrics (execute_all (new_Protocol110System c t0) calls))
         + failedOperations (metrics (execute_all (new_Protocol110System c t0) calls))"
proof -
  have init: "totalOperations (metrics (new_Protocol110System c t0)) = 0
      \<and> successfulOperations (metrics (new_Protocol110System c t0)) = 0
      \<and> failedOperations (metrics (new_Protocol110System c t0)) = 0"
    by (simp add: new_Protocol110System_metrics initializeMetrics_def)
  have step: "totalOperations (metrics sys)
         = successfulOperations (metrics sys) + failedOperations (metrics sys) \<Longrightarrow>
       totalOperations (metrics (snd (execute sys env op name)))
         = successfulOperations (metrics (snd (execute sys env op name)))
           + failedOperations (metrics (snd (execute sys env op name)))"
    by (simp add: execute_total execute_successful execute_failed split: outcome.splits)
  have healed: "op = Throws e \<and> enableSelfHealing (config sys) \<Longrightarrow>
         (\<exists>r. fst (execute sys env op name) = Inr r \<and> success r)
         \<and> failedOperations (metrics (snd (execute sys env op name)))
             = failedOperations (metrics sys) + 1
         \<and> successfulOperations (metrics (snd (execute sys env op name)))
             = successfulOperations (metrics sys)" for e
    using execute_healed[of sys env e name]
    by (simp add: execute_successful execute_failed)
  show ?thesis
    using execute_total[of sys env op name] step healed init
      execute_all_counts[of "new_Protocol110System c t0" calls]
    by (intro conjI impI allI) simp_all
qed

theorem execute_counts_witness:
  "totalOperations (metrics (new_Protocol110System no_options 0))
     = successfulOperations (metrics (new_Protocol110System no_options 0))
       + failedOperations (metrics (new_Protocol110System no_options 0))
   \<and> enableSelfHealing (config (new_Protocol110System no_options 0))
   \<and> \<not> isl (fst (execute (new_Protocol110System no_options 0) sample_env (Throws test_error)
                ''failing-operation''))
   \<and> totalOperations (metrics (snd (execute (new_Protocol110System no_options 0) sample_env
        (Throws test_error) ''failing-operation''))) = 1
   \<and> failedOperations (metrics (snd (execute (new_Protocol110System no_options 0) sample_env
        (Throws test_error) ''failing-operation''))) = 1
   \<and> successfulOperations (metrics (snd (execute (new_Protocol110System no_options 0) sample_env
        (Throws test_error) ''failing-operation''))) = 0"
proof -
  let ?sys = "new_Protocol110System no_options 0"
  have init: "totalOperations (metrics ?sys) = 0 \<and> successfulOperations (metrics ?sys) = 0
      \<and> failedOperations (metrics ?sys) = 0"
    by (simp add: new_Protocol110System_metrics initializeMetrics_def)
  have on: "enableSelfHealing (config ?sys)"
    by (simp add: new_Protocol110System_config no_options_def)
  show ?thesis
    using execute_counts [of ?sys sample_env "Throws test_error" "''failing-operation''"
        no_options 0 "[]"] init on
    by auto
qed

text \<open>
  Claim C1, as amended. \<open>Protocol110System\<close> holds no healing engine and
  \<open>attemptSelfHealing\<close> calls no \<open>heal\<close>: for every error the operation throws, with
  \<open>enableSelfHealing\<close> set, \<open>execute\<close> returns the healed result (success, status
  SUCCESS, data \<open>{healed: true, originalError}\<close>, no enhancement, one HIGH
  "Self-Healing Action" recommendation of impact 90); with it unset, \<open>execute\<close> throws
  the original error.
\<close>

theorem execute_failure:
  "(enableSelfHealing (config sys) \<longrightarrow>
      (\<exists>r rc. fst (execute sys env (Throws e) name) = Inr r
         \<and> success r \<and> status r = SUCCESS
         \<and> data r = JObj [(''healed'', JBool True), (''originalError'', JStr (error_to_string e))]
         \<and> enhancements r = [] \<and> recommendations r = [rc]
         \<and> rec_title rc = ''Self-Healing Action'' \<and> rec_priority rc = HIGH
         \<and> estimatedImpact rc = 90))
   \<and> (\<not> enableSelfHealing (config sys) \<longrightarrow> fst (execute sys env (Throws e) name) = Inl e)"
  by (simp add: execute_Throws Let_def attemptSelfHealing_def createSuccessResult_def
        createRecommendation_def logger_info_def)

theorem execute_failure_witness:
  "enableSelfHealing (config (new_Protocol110System no_options 0))
   \<and> (\<exists>r. fst (execute (new_Protocol110System no_options 0) sample_env (Throws test_error)
             ''failing-operation'') = Inr r
         \<and> success r \<and> map rec_title (recommendations r) = [''Self-Healing Action''])
   \<and> \<not> enableSelfHealing
         (config (new_Protocol110System (no_options\<lparr>p_enableSelfHealing := Some False\<rparr>) 0))
   \<and> fst (execute (new_Protocol110System (no_options\<lparr>p_enableSelfHealing := Some False\<rparr>) 0)
            sample_env (Throws test_error) ''failing-operation'') = Inl test_error"
proof -
  have on: "enableSelfHealing (config (new_Protocol110System no_options 0))"
    by (simp add: new_Protocol110System_config no_options_def)
  have off: "\<not> enableSelfHealing
         (config (new_Protocol110System (no_options\<lparr>p_enableSelfHealing := Some False\<rparr>) 0))"
    by (simp add: new_Protocol110System_config no_options_def)
  show ?thesis
    using on off
      execute_failure [of "new_Protocol110System no_options 0" sample_env test_error
        "''failing-operation''"]
      execute_failure [of "new_Protocol110System (no_options\<lparr>p_enableSelfHealing := Some False\<rparr>) 0"
        sample_env test_error "''failing-operation''"]
    by auto
qed

section \<open>The orchestrator against the healing engine\<close>

lemma strategies_new:
  "strategies new_SelfHealingSystem = [network_retry, resource_cleanup, rate_limit_backoff]"
  by (simp add: new_SelfHealingSystem_def initializeDefaultStrategies_def registerStrategy_def
      js_sort_def network_retry_def resource_cleanup_def rate_limit_backoff_def)

text \<open>
  Claim C1 as stated fails: on the error of the test "execute operation with error and
  self-healing" a new healing engine's \<open>heal\<close> reports no success (no strategy
  matches "Test error"), and \<open>execute\<close> with self-healing enabled returns a success
  result all the same.
\<close>

theorem execute_heals_unmatched_error:
  "fst (heal new_SelfHealingSystem sample_heal_env test_error) = False
   \<and> enableSelfHealing (config (new_Protocol110System no_options 0))
   \<and> \<not> isl (fst (execute (new_Protocol110System no_options 0) sample_env (Throws test_error)
                ''failing-operation''))
   \<and> success (projr (fst (execute (new_Protocol110System no_options 0) sample_env
                (Throws test_error) ''failing-operation'')))"
proof -
  have "find (\<lambda>s. errorPattern s ''Test error'') (strategies new_SelfHealingSystem) = None"
    by (simp add: strategies_new network_retry_def resource_cleanup_def rate_limit_backoff_def
          regex_test_def canonicalize_def)
  then have h: "fst (heal new_SelfHealingSystem sample_heal_env test_error) = False"
    by (simp add: heal_def errorText_def test_error_def)
  have on: "enableSelfHealing (config (new_Protocol110System no_options 0))"
    by (simp add: new_Protocol110System_config no_options_def)
  have "\<not> isl (fst (execute (new_Protocol110System no_options 0) sample_env (Throws test_error)
                ''failing-operation''))
   \<and> success (projr (fst (execute (new_Protocol110System no_options 0) sample_env
                (Throws test_error) ''failing-operation'')))"
    using on
    by (simp add: execute_Throws Let_def attemptSelfHealing_def createSuccessResult_def
        createRecommendation_def logger_info_def)
  with h on show ?thesis by simp
qed

section \<open>Health check, ledger queries and the API\<close>

lemma new_Protocol110System_startTime: "startTime (new_Protocol110System c now) = now"
  by (simp add: new_Protocol110System_def logger_info_def)

lemma execute_startTime: "startTime (snd (execute sys env op name)) = startTime sys"
  by (cases op)
     (simp_all add: execute_Returns execute_Throws Let_def applyEnhancements_state
        generateRecommendations_state updateMetrics_def attemptSelfHealing_def
        logger_info_def createRecommendation_def split: prod.splits)

lemma execute_all_startTime: "startTime (execute_all sys calls) = startTime sys"
  by (induction calls arbitrary: sys) (simp_all add: execute_startTime)

lemma execute_all_successful:
  "successfulOperations (metrics (execute_all sys calls)) =
     successfulOperations (metrics sys)
       + length (filter (\<lambda>c. case fst (snd c) of Returns _ \<Rightarrow> True | Throws _ \<Rightarrow> False) calls)"
  by (induction calls arbitrary: sys) (simp_all add: execute_successful split: outcome.splits)

lemma degraded_system_metrics:
  "totalOperations (metrics degraded_system) = 3
   \<and> successfulOperations (metrics degraded_system) = 1 \<and> startTime degraded_system = 0"
  by (simp add: degraded_system_def execute_all_counts execute_all_successful
        execute_all_startTime new_Protocol110System_metrics initializeMetrics_def
        new_Protocol110System_startTime del: execute_all.simps)

lemma healthy_system_metrics:
  "totalOperations (metrics healthy_system) = 2
   \<and> successfulOperations (metrics healthy_system) = 2 \<and> startTime healthy_system = 0"
  by (simp add: healthy_system_def execute_all_counts execute_all_successful
        execute_all_startTime new_Protocol110System_metrics initializeMetrics_def
        new_Protocol110System_startTime del: execute_all.simps)

text \<open>
  Claim C7. \<open>getHealthCheck\<close> computes the success rate as \<open>successfulOperations /
  max(totalOperations, 1) * 100\<close> and the uptime as the time since construction; the
  system is healthy exactly when the rate is at least 80 and the uptime is positive.
  A healthy system has status "healthy" and no issues; any other has status "degraded"
  and the issues list "Success rate below threshold". A rate below 80 is never healthy,
  whatever the uptime.
\<close>

theorem getHealthCheck_healthy:
  "hm_successRate (hc_metrics (fst (getHealthCheck sys now)))
     = real (successfulOperations (metrics sys)) / real (max (totalOperations (metrics sys)) 1) * 100
   \<and> hm_uptime (hc_metrics (fst (getHealthCheck sys now))) = now - startTime sys
   \<and> healthy (fst (getHealthCheck sys now))
       = (hm_successRate (hc_metrics (fst (getHealthCheck sys now))) \<ge> 80
          \<and> hm_uptime (hc_metrics (fst (getHealthCheck sys now))) > 0)
   \<and> (healthy (fst (getHealthCheck sys now)) \<longrightarrow>
        hc_status (fst (getHealthCheck sys now)) = ''healthy''
        \<and> issues (fst (getHealthCheck sys now)) = None)
   \<and> (\<not> healthy (fst (getHealthCheck sys now)) \<longrightarrow>
        hc_status (fst (getHealthCheck sys now)) = ''degraded''
        \<and> issues (fst (getHealthCheck sys now)) = Some [''Success rate below threshold''])
   \<and> (hm_successRate (hc_metrics (fst (getHealthCheck sys now))) < 80 \<longrightarrow>
        \<not> healthy (fst (getHealthCheck sys now)))"
proof -
  have m: "(if totalOperations (metrics sys) = 0 then 1 else totalOperations (metrics sys))
             = max (totalOperations (metrics sys)) 1"
    by simp
  show ?thesis
    unfolding getHealthCheck_def Let_def updateMetrics_def
    by (simp add: m)
qed

theorem getHealthCheck_healthy_witness:
  "healthy (fst (getHealthCheck healthy_system 2000))
   \<and> hc_status (fst (getHealthCheck healthy_system 2000)) = ''healthy''
   \<and> issues (fst (getHealthCheck healthy_system 2000)) = None
   \<and> hm_successRate (hc_metrics (fst (getHealthCheck degraded_system 2000))) < 80
   \<and> hm_uptime (hc_metrics (fst (getHealthCheck degraded_system 2000))) > 0
   \<and> \<not> healthy (fst (getHealthCheck degraded_system 2000))
   \<and> hc_status (fst (getHealthCheck degraded_system 2000)) = ''degraded''
   \<and> issues (fst (getHealthCheck degraded_system 2000)) = Some [''Success rate below threshold'']"
  using getHealthCheck_healthy [of healthy_system 2000]
    getHealthCheck_healthy [of degraded_system 2000]
    healthy_system_metrics degraded_system_metrics
  by simp

lemma js_slice_negative:
  "n < 0 \<Longrightarrow> js_slice xs 0 n = take (nat (int (length xs) + n)) xs"
  by (auto simp: js_slice_def Let_def max_def)

lemma getTopRecommendations_sorted:
  "fst (getTopRecommendations eng limit) =
     js_slice (sort_key (\<lambda>r. - estimatedImpact r) (engine_recommendations eng)) 0 limit"
  by (simp add: getTopRecommendations_def js_sort_desc)

lemma test_engine_impacts:
  "map estimatedImpact (engine_recommendations test_engine) = [30, 95, 60]"
  by (simp add: test_engine_def createRecommendation_def Let_def)

text \<open>
  Claim C8, as amended. For every stored list and every limit, \<open>getTopRecommendations\<close>
  returns a front part of a rearrangement of the stored list that is in descending order
  of \<open>estimatedImpact\<close> and keeps entries of equal impact in their stored order; so no
  entry left out has a greater impact than an entry returned. For a limit that is not
  negative the front part is the first \<open>limit\<close> entries (all of them when fewer are
  stored); a negative limit is not refused and leaves out the last \<open>- limit\<close> entries
  instead. The engine is left as it was. Over the impacts 30, 95, 60 the limit 2
  returns the entries of impact 95 and 60, in that order, and so does the limit -1.
\<close>

theorem getTopRecommendations_top:
  "\<exists>rest.
       mset (fst (getTopRecommendations eng limit) @ rest) = mset (engine_recommendations eng)
     \<and> length (fst (getTopRecommendations eng limit))
         = (if 0 \<le> limit then min (nat limit) (length (engine_recommendations eng))
            else nat (int (length (engine_recommendations eng)) + limit))
     \<and> sorted (map (\<lambda>r. - estimatedImpact r) (fst (getTopRecommendations eng limit) @ rest))
     \<and> (\<forall>a \<in> set (fst (getTopRecommendations eng limit)). \<forall>b \<in> set rest.
           estimatedImpact b \<le> estimatedImpact a)
     \<and> (\<forall>k. filter (\<lambda>r. estimatedImpact r = k) (fst (getTopRecommendations eng limit) @ rest)
            = filter (\<lambda>r. estimatedImpact r = k) (engine_recommendations eng))
     \<and> snd (getTopRecommendations eng limit) = eng
     \<and> (\<forall>a b c. estimatedImpact a = 30 \<and> estimatedImpact b = 95 \<and> estimatedImpact c = 60 \<longrightarrow>
          fst (getTopRecommendations \<lparr>engine_recommendations = [a, b, c]\<rparr> 2) = [b, c]
          \<and> fst (getTopRecommendations \<lparr>engine_recommendations = [a, b, c]\<rparr> (- 1)) = [b, c])"
proof -
  define S where "S = sort_key (\<lambda>r. - estimatedImpact r) (engine_recommendations eng)"
  define n where "n = (if 0 \<le> limit then nat limit
                       else nat (int (length (engine_recommendations eng)) + limit))"
  define rest where "rest = drop n S"
  have len: "length S = length (engine_recommendations eng)"
    by (simp add: S_def)
  have top: "fst (getTopRecommendations eng limit) = take n S"
  proof (cases "0 \<le> limit")
    case True
    then show ?thesis
      by (simp add: getTopRecommendations_sorted S_def n_def js_slice_take)
  next
    case False
    then have "js_slice S 0 limit = take (nat (int (length S) + limit)) S"
      by (simp add: js_slice_negative)
    with False show ?thesis
      by (simp add: getTopRecommendations_sorted n_def len flip: S_def)
  qed
  have whole: "fst (getTopRecommendations eng limit) @ rest = S"
    by (simp add: top rest_def)
  have perm: "mset S = mset (engine_recommendations eng)"
    by (simp add: S_def)
  have size: "length (fst (getTopRecommendations eng limit))
         = (if 0 \<le> limit then min (nat limit) (length (engine_recommendations eng))
            else nat (int (length (engine_recommendations eng)) + limit))"
    unfolding top using len by (auto simp: n_def)
  have srt: "sorted (map (\<lambda>r. - estimatedImpact r) S)"
    by (simp add: S_def)
  have stable: "filter (\<lambda>r. estimatedImpact r = k) S
                  = filter (\<lambda>r. estimatedImpact r = k) (engine_recommendations eng)" for k
  proof -
    have "filter (\<lambda>r. - estimatedImpact r = - k) S
            = filter (\<lambda>r. - estimatedImpact r = - k) (engine_recommendations eng)"
      unfolding S_def by (rule sort_key_stable)
    then show ?thesis by simp
  qed
  have greatest: "\<forall>a \<in> set (take n S). \<forall>b \<in> set (drop n S).
                    estimatedImpact b \<le> estimatedImpact a"
  proof -
    have "sorted (map (\<lambda>r. - estimatedImpact r) (take n S @ drop n S))"
      using srt by simp
    then show ?thesis
      unfolding map_append sorted_append by auto
  qed
  have unchanged: "snd (getTopRecommendations eng limit) = eng"
    by (simp add: getTopRecommendations_def)
  have example: "fst (getTopRecommendations \<lparr>engine_recommendations = [a, b, c]\<rparr> 2) = [b, c]
          \<and> fst (getTopRecommendations \<lparr>engine_recommendations = [a, b, c]\<rparr> (- 1)) = [b, c]"
    if "estimatedImpact a = 30 \<and> estimatedImpact b = 95 \<and> estimatedImpact c = 60" for a b c
    using that by (simp add: getTopRecommendations_def js_sort_def js_slice_def)
  show ?thesis
  proof (intro exI[of _ rest] conjI)
    show "mset (fst (getTopRecommendations eng limit) @ rest) = mset (engine_recommendations eng)"
      using whole perm by simp
    show "length (fst (getTopRecommendations eng limit))
         = (if 0 \<le> limit then min (nat limit) (length (engine_recommendations eng))
            else nat (int (length (engine_recommendations eng)) + limit))"
      by (rule size)
    show "sorted (map (\<lambda>r. - estimatedImpact r) (fst (getTopRecommendations eng limit) @ rest))"
      using whole srt by simp
    show "\<forall>a \<in> set (fst (getTopRecommendations eng limit)). \<forall>b \<in> set rest.
            estimatedImpact b \<le> estimatedImpact a"
      using top greatest by (simp add: rest_def)
    show "\<forall>k. filter (\<lambda>r. estimatedImpact r = k) (fst (getTopRecommendations eng limit) @ rest)
             = filter (\<lambda>r. estimatedImpact r = k) (engine_recommendations eng)"
      using whole stable by simp
    show "snd (getTopRecommendations eng limit) = eng" by (rule unchanged)
    show "\<forall>a b c. estimatedImpact a = 30 \<and> estimatedImpact b = 95 \<and> estimatedImpact c = 60 \<longrightarrow>
          fst (getTopRecommendations \<lparr>engine_recommendations = [a, b, c]\<rparr> 2) = [b, c]
          \<and> fst (getTopRecommendations \<lparr>engine_recommendations = [a, b, c]\<rparr> (- 1)) = [b, c]"
      using example by blast
  qed
qed

theorem getTopRecommendations_top_witness:
  "map estimatedImpact (engine_recommendations test_engine) = [30, 95, 60]
   \<and> length (fst (getTopRecommendations test_engine 2)) = 2
   \<and> map estimatedImpact (fst (getTopRecommendations test_engine 2)) = [95, 60]
   \<and> length (fst (getTopRecommendations test_engine 5)) = 3
   \<and> length (fst (getTopRecommendations test_engine (- 2))) = 1
   \<and> map estimatedImpact (engine_recommendations (snd (getTopRecommendations test_engine 2)))
       = [30, 95, 60]"
proof -
  obtain a b c where abc: "engine_recommendations test_engine = [a, b, c]"
    and imp: "estimatedImpact a = 30 \<and> estimatedImpact b = 95 \<and> estimatedImpact c = 60"
    by (simp add: test_engine_def createRecommendation_def Let_def)
  have eng: "test_engine = \<lparr>engine_recommendations = [a, b, c]\<rparr>"
    using abc by (cases test_engine) simp
  have two: "length (fst (getTopRecommendations test_engine 2))
            = (if (0::int) \<le> 2 then min (nat 2) (length (engine_recommendations test_engine))
               else nat (int (length (engine_recommendations test_engine)) + 2))
      \<and> snd (getTopRecommendations test_engine 2) = test_engine
      \<and> (\<forall>a b c. estimatedImpact a = 30 \<and> estimatedImpact b = 95 \<and> estimatedImpact c = 60 \<longrightarrow>
          fst (getTopRecommendations \<lparr>engine_recommendations = [a, b, c]\<rparr> 2) = [b, c]
          \<and> fst (getTopRecommendations \<lparr>engine_recommendations = [a, b, c]\<rparr> (- 1)) = [b, c])"
    using getTopRecommendations_top [of test_engine 2] by blast
  have five: "length (fst (getTopRecommendations test_engine 5))
            = (if (0::int) \<le> 5 then min (nat 5) (length (engine_recommendations test_engine))
               else nat (int (length (engine_recommendations test_engine)) + 5))"
    using getTopRecommendations_top [of test_engine 5] by blast
  have minus: "length (fst (getTopRecommendations test_engine (- 2)))
            = (if (0::int) \<le> - 2 then min (nat (- 2)) (length (engine_recommendations test_engine))
               else nat (int (length (engine_recommendations test_engine)) + (- 2)))"
    using getTopRecommendations_top [of test_engine "- 2"] by blast
  have "fst (getTopRecommendations test_engine 2) = [b, c]"
    using two imp eng by metis
  then show ?thesis
    using two five minus abc imp by simp
qed

text \<open>
  Claim C8 as stated fails for a negative limit: over the impacts 30, 95, 60 of the
  test, the limit -1 does not return -1 or no recommendations but two, those of impact
  95 and 60.
\<close>

theorem getTopRecommendations_negative_limit:
  "map estimatedImpact (engine_recommendations test_engine) = [30, 95, 60]
   \<and> length (fst (getTopRecommendations test_engine (- 1))) = 2
   \<and> map estimatedImpact (fst (getTopRecommendations test_engine (- 1))) = [95, 60]"
  by (simp add: test_engine_def createRecommendation_def Let_def getTopRecommendations_def
        js_sort_def js_slice_def)

text \<open>
  Claim C10. \<open>getRecommendations\<close> of the API controller with the limit 0 answers as
  it does with no limit: its data are all stored recommendations in stored order,
  and are empty only when nothing is stored. Had the limit 0 been passed on,
  \<open>getTopRecommendations\<close> would have returned the empty list.
\<close>

theorem api_getRecommendations_zero:
  "api_getRecommendations api now (Some 0) = api_getRecommendations api now None
   \<and> api_success (fst (api_getRecommendations api now (Some 0)))
   \<and> api_data (fst (api_getRecommendations api now (Some 0)))
       = Some (engine_recommendations (recommendationEngine (protocol api)))
   \<and> (api_data (fst (api_getRecommendations api now (Some 0))) = Some [])
       = (engine_recommendations (recommendationEngine (protocol api)) = [])
   \<and> fst (protocol_getTopRecommendations (protocol api) 0) = []"
  by (simp add: api_getRecommendations_def protocol_getRecommendations_def
        getRecommendations_def protocol_getTopRecommendations_def getTopRecommendations_def
        js_slice_def)

theorem api_getRecommendations_zero_witness:
  "map rec_title (the (api_data (fst (api_getRecommendations test_api 2000 (Some 0)))))
     = [''Optimize Performance'', ''Enhanced Monitoring'']
   \<and> api_getRecommendations test_api 2000 (Some 0) = api_getRecommendations test_api 2000 None
   \<and> fst (protocol_getTopRecommendations (protocol test_api) 0) = []"
proof -
  have "map rec_title (engine_recommendations (recommendationEngine (protocol test_api)))
          = [''Optimize Performance'', ''Enhanced Monitoring'']"
    by (simp add: test_api_def execute_Returns Let_def applyEnhancements_state
          generateRecommendations_state updateMetrics_def new_Protocol110System_def
          logger_info_def no_options_def perfRecommendation_def monitoringRecommendation_def)
  then have stored: "map rec_title (the (Some
          (engine_recommendations (recommendationEngine (protocol test_api)))))
          = [''Optimize Performance'', ''Enhanced Monitoring'']"
    by simp
  have returned: "api_data (fst (api_getRecommendations test_api 2000 (Some 0)))
       = Some (engine_recommendations (recommendationEngine (protocol test_api)))"
    using api_getRecommendations_zero [of test_api 2000] by blast
  have same: "api_getRecommendations test_api 2000 (Some 0)
       = api_getRecommendations test_api 2000 None"
    using api_getRecommendations_zero [of test_api 2000] by blast
  have top: "fst (protocol_getTopRecommendations (protocol test_api) 0) = []"
    using api_getRecommendations_zero [of test_api 2000] by blast
  from stored have "map rec_title (the (api_data (fst (api_getRecommendations test_api 2000 (Some 0)))))
     = [''Optimize Performance'', ''Enhanced Monitoring'']"
    by (simp only: returned)
  with same top show ?thesis by blast
qed

section \<open>The healing engine\<close>

lemma find_first_match:
  "(\<forall>p \<in> set pre. \<not> P p) \<Longrightarrow> P s \<Longrightarrow> find P (pre @ s # post) = Some s"
  by (induction pre) simp_all

lemma find_no_match: "(\<forall>p \<in> set xs. \<not> P p) \<Longrightarrow> find P xs = None"
  by (induction xs) simp_all

lemma recordAttempt_last:
  "last (healingHistory (recordAttempt sys fresh now errType used ok time)) =
     \<lparr>att_id = fresh, att_timestamp = now, errorType = errType, strategyUsed = used,
      att_success = ok, recoveryTime = time\<rparr>"
proof (cases "healingHistory sys")
  case Nil
  then show ?thesis by (simp add: recordAttempt_def)
next
  case (Cons a as)
  then show ?thesis by (simp add: recordAttempt_def Let_def)
qed

lemma recordAttempt_strategies:
  "strategies (recordAttempt sys fresh now errType used ok time) = strategies sys"
  by (simp add: recordAttempt_def Let_def)

lemma registerStrategy_sorted:
  "sorted (map (\<lambda>s. priorityOrder (strat_priority s)) (strategies (registerStrategy sys s)))"
  by (simp add: registerStrategy_def js_sort_asc)

lemma heal_no_match:
  assumes "\<forall>s \<in> set (strategies sys). \<not> errorPattern s (errorText e)"
  shows "heal sys env e =
           (False, recordAttempt sys (heal_fresh env) (heal_now env) (errorText e) ''none'' False
                     (heal_end env - heal_start env))"
  using find_no_match[OF assms] by (simp add: heal_def Let_def)

lemma heal_match:
  assumes "strategies sys = pre @ s # post"
    and "\<forall>p \<in> set pre. \<not> errorPattern p (errorText e)"
    and "errorPattern s (errorText e)"
  shows "heal sys env e =
           (case healingAction s () of
              Returns ok \<Rightarrow>
                (ok, recordAttempt sys (heal_fresh env) (heal_now env) (errorText e)
                       (strat_name s) ok (heal_end env - heal_start env))
            | Throws _ \<Rightarrow>
                (False, recordAttempt sys (heal_fresh env) (heal_now env) (errorText e)
                          (strat_name s) False (heal_end env - heal_start env)))"
  using find_first_match[of pre "\<lambda>s. errorPattern s (errorText e)" s post] assms
  by (simp add: heal_def Let_def)

lemma heal_strategies: "strategies (snd (heal sys env e)) = strategies sys"
  by (simp add: heal_def Let_def recordAttempt_strategies split: option.splits outcome.splits)

lemma network_matches:
  "errorPattern network_retry ''Network timeout error''"
  by (simp add: network_retry_def regex_test_def canonicalize_def)

lemma unknown_matches_none:
  "\<forall>s \<in> set (strategies new_SelfHealingSystem). \<not> errorPattern s ''Some unknown error type''"
  by (simp add: strategies_new network_retry_def resource_cleanup_def rate_limit_backoff_def
        regex_test_def canonicalize_def)

lemma strategies_registered:
  "strategies (registerStrategy new_SelfHealingSystem failing_strategy)
     = [failing_strategy, network_retry, resource_cleanup, rate_limit_backoff]"
  by (simp add: registerStrategy_def strategies_new js_sort_def failing_strategy_def
        network_retry_def resource_cleanup_def rate_limit_backoff_def)

text \<open>
  Claim C5. \<open>heal\<close> tests the text of the error (its message, or \<^verbatim>\<open>String(error)\<close>
  when the message is empty) against the strategies in the order of the list, which each
  registration sorts by priority, and runs the action of the first strategy that matches,
  and of no other. When none matches it records an attempt with strategy "none" and no
  success, and returns false. When the action of the first match throws, \<open>heal\<close> still
  returns: it records a failed attempt under the strategy's name and returns false.
  Otherwise it records and returns what the action returned. On a new system the error
  "Network timeout error" gives true, and "Some unknown error type" gives false with
  strategy "none".
\<close>

theorem heal_first_match_only:
  "((\<forall>s \<in> set (strategies sys). \<not> errorPattern s (errorText e)) \<longrightarrow>
      fst (heal sys env e) = False
      \<and> strategyUsed (last (healingHistory (snd (heal sys env e)))) = ''none''
      \<and> att_success (last (healingHistory (snd (heal sys env e)))) = False
      \<and> errorType (last (healingHistory (snd (heal sys env e)))) = errorText e)
   \<and> (\<forall>pre s post.
        strategies sys = pre @ s # post
        \<and> (\<forall>p \<in> set pre. \<not> errorPattern p (errorText e))
        \<and> errorPattern s (errorText e) \<longrightarrow>
          strategyUsed (last (healingHistory (snd (heal sys env e)))) = strat_name s
          \<and> errorType (last (healingHistory (snd (heal sys env e)))) = errorText e
          \<and> att_success (last (healingHistory (snd (heal sys env e)))) = fst (heal sys env e)
          \<and> fst (heal sys env e)
              = (case healingAction s () of Returns ok \<Rightarrow> ok | Throws _ \<Rightarrow> False))
   \<and> strategies (snd (heal sys env e)) = strategies sys
   \<and> sorted (map (\<lambda>s. priorityOrder (strat_priority s)) (strategies (registerStrategy sys new)))
   \<and> strategies new_SelfHealingSystem = [network_retry, resource_cleanup, rate_limit_backoff]
   \<and> fst (heal new_SelfHealingSystem env
             \<lparr>err_name = ''Error'', err_message = ''Network timeout error''\<rparr>) = True
   \<and> fst (heal new_SelfHealingSystem env
             \<lparr>err_name = ''Error'', err_message = ''Some unknown error type''\<rparr>) = False
   \<and> strategyUsed (last (healingHistory (snd (heal new_SelfHealingSystem env
             \<lparr>err_name = ''Error'', err_message = ''Some unknown error type''\<rparr>)))) = ''none''"
proof -
  have none: "fst (heal sys env e) = False
      \<and> strategyUsed (last (healingHistory (snd (heal sys env e)))) = ''none''
      \<and> att_success (last (healingHistory (snd (heal sys env e)))) = False
      \<and> errorType (last (healingHistory (snd (heal sys env e)))) = errorText e"
    if "\<forall>s \<in> set (strategies sys). \<not> errorPattern s (errorText e)"
    by (simp add: heal_no_match[OF that] recordAttempt_last)
  have some: "strategyUsed (last (healingHistory (snd (heal sys env e)))) = strat_name s
          \<and> errorType (last (healingHistory (snd (heal sys env e)))) = errorText e
          \<and> att_success (last (healingHistory (snd (heal sys env e)))) = fst (heal sys env e)
          \<and> fst (heal sys env e)
              = (case healingAction s () of Returns ok \<Rightarrow> ok | Throws _ \<Rightarrow> False)"
    if "strategies sys = pre @ s # post
        \<and> (\<forall>p \<in> set pre. \<not> errorPattern p (errorText e))
        \<and> errorPattern s (errorText e)" for pre s post
  proof -
    from that have a: "strategies sys = pre @ s # post"
      and b: "\<forall>p \<in> set pre. \<not> errorPattern p (errorText e)"
      and c: "errorPattern s (errorText e)" by blast+
    show ?thesis
      by (cases "healingAction s ()") (simp_all add: heal_match[OF a b c] recordAttempt_last)
  qed
  have net: "fst (heal new_SelfHealingSystem env
             \<lparr>err_name = ''Error'', err_message = ''Network timeout error''\<rparr>) = True"
  proof -
    have "heal new_SelfHealingSystem env \<lparr>err_name = ''Error'', err_message = ''Network timeout error''\<rparr>
       = (case healingAction network_retry () of
              Returns ok \<Rightarrow>
                (ok, recordAttempt new_SelfHealingSystem (heal_fresh env) (heal_now env) 
                       (errorText \<lparr>err_name = ''Error'', err_message = ''Network timeout error''\<rparr>)
                       (strat_name network_retry) ok (heal_end env - heal_start env))
            | Throws _ \<Rightarrow>
                (False, recordAttempt new_SelfHealingSystem (heal_fresh env) (heal_now env) 
                       (errorText \<lparr>err_name = ''Error'', err_message = ''Network timeout error''\<rparr>)
                          (strat_name network_retry) False (heal_end env - heal_start env)))"
      by (rule heal_match[of _ "[]" _ "[resource_cleanup, rate_limit_backoff]"])
         (simp_all add: strategies_new errorText_def network_matches)
    then show ?thesis by (simp add: network_retry_def)
  qed
  have unk: "fst (heal new_SelfHealingSystem env
             \<lparr>err_name = ''Error'', err_message = ''Some unknown error type''\<rparr>) = False
   \<and> strategyUsed (last (healingHistory (snd (heal new_SelfHealingSystem env
             \<lparr>err_name = ''Error'', err_message = ''Some unknown error type''\<rparr>)))) = ''none''"
  proof -
    have "\<forall>s \<in> set (strategies new_SelfHealingSystem).
            \<not> errorPattern s (errorText \<lparr>err_name = ''Error'', err_message = ''Some unknown error type''\<rparr>)"
      using unknown_matches_none by (simp add: errorText_def)
    from heal_no_match[OF this] show ?thesis by (simp add: recordAttempt_last)
  qed
  show ?thesis
    using none some heal_strategies[of sys env e] registerStrategy_sorted[of sys new]
      strategies_new net unk
    by (intro conjI impI allI) blast+
qed

theorem heal_first_match_only_witness:
  "list_all (\<lambda>s. \<not> errorPattern s (errorText unknown_error)) (strategies new_SelfHealingSystem)
   \<and> fst (heal new_SelfHealingSystem sample_heal_env unknown_error) = False
   \<and> strategyUsed (last (healingHistory (snd (heal new_SelfHealingSystem sample_heal_env
        unknown_error)))) = ''none''
   \<and> strategies (registerStrategy new_SelfHealingSystem failing_strategy)
        = [] @ failing_strategy # [network_retry, resource_cleanup, rate_limit_backoff]
   \<and> errorPattern failing_strategy (errorText test_error)
   \<and> fst (heal (registerStrategy new_SelfHealingSystem failing_strategy) sample_heal_env
        test_error) = False
   \<and> strategyUsed (last (healingHistory (snd (heal
        (registerStrategy new_SelfHealingSystem failing_strategy) sample_heal_env test_error))))
       = ''Critical Priority''"
proof -
  let ?sys = "registerStrategy new_SelfHealingSystem failing_strategy"
  have none: "\<forall>s \<in> set (strategies new_SelfHealingSystem).
                \<not> errorPattern s (errorText unknown_error)"
    using unknown_matches_none by (simp add: errorText_def unknown_error_def)
  have split: "strategies ?sys = [] @ failing_strategy # [network_retry, resource_cleanup, rate_limit_backoff]"
    by (simp add: strategies_registered)
  have hit: "errorPattern failing_strategy (errorText test_error)"
    by (simp add: failing_strategy_def errorText_def test_error_def regex_test_def
          canonicalize_def)
  have first: "strategies ?sys = [] @ failing_strategy # [network_retry, resource_cleanup, rate_limit_backoff]
        \<and> (\<forall>p \<in> set []. \<not> errorPattern p (errorText test_error))
        \<and> errorPattern failing_strategy (errorText test_error)"
    using split hit by simp
  have throws: "healingAction failing_strategy () = Throws \<lparr>err_name = ''Error'', err_message = ''cannot recover''\<rparr>"
    and name: "strat_name failing_strategy = ''Critical Priority''"
    by (simp_all add: failing_strategy_def)
  have a: "fst (heal new_SelfHealingSystem sample_heal_env unknown_error) = False
   \<and> strategyUsed (last (healingHistory (snd (heal new_SelfHealingSystem sample_heal_env
        unknown_error)))) = ''none''"
    using heal_first_match_only [of new_SelfHealingSystem unknown_error sample_heal_env] none
    by blast
  have b: "strategyUsed (last (healingHistory (snd (heal ?sys sample_heal_env test_error))))
             = strat_name failing_strategy
      \<and> fst (heal ?sys sample_heal_env test_error)
          = (case healingAction failing_strategy () of Returns ok \<Rightarrow> ok | Throws _ \<Rightarrow> False)"
    using heal_first_match_only [of ?sys test_error sample_heal_env] first
    by blast
  show ?thesis
    using a b none split hit throws name by (simp add: list_all_iff)
qed

section \<open>The healing history\<close>

lemma heal_pushes:
  "\<exists>a. att_id a = heal_fresh env \<and> errorType a = errorText e
       \<and> healingHistory (snd (heal sys env e))
           = (if length (healingHistory sys @ [a]) > 100 then tl (healingHistory sys @ [a])
              else healingHistory sys @ [a])"
proof -
  have "\<exists>used ok. snd (heal sys env e)
          = recordAttempt sys (heal_fresh env) (heal_now env) (errorText e) used ok
              (heal_end env - heal_start env)"
  proof (cases "find (\<lambda>s. errorPattern s (errorText e)) (strategies sys)")
    case None
    then have "snd (heal sys env e)
          = recordAttempt sys (heal_fresh env) (heal_now env) (errorText e) ''none'' False
              (heal_end env - heal_start env)"
      by (simp add: heal_def Let_def)
    then show ?thesis by blast
  next
    case (Some strategy)
    then have "snd (heal sys env e)
          = recordAttempt sys (heal_fresh env) (heal_now env) (errorText e) (strat_name strategy)
              (case healingAction strategy () of Returns ok \<Rightarrow> ok | Throws _ \<Rightarrow> False)
              (heal_end env - heal_start env)"
      by (cases "healingAction strategy ()") (simp_all add: heal_def Let_def)
    then show ?thesis by blast
  qed
  then obtain used ok where
    "snd (heal sys env e) = recordAttempt sys (heal_fresh env) (heal_now env) (errorText e) used ok
                              (heal_end env - heal_start env)"
    by blast
  then show ?thesis
    by (intro exI[of _ "\<lparr>att_id = heal_fresh env, att_timestamp = heal_now env,
          errorType = errorText e, strategyUsed = used, att_success = ok,
          recoveryTime = heal_end env - heal_start env\<rparr>"])
       (simp add: recordAttempt_def Let_def)
qed

lemma shift_is_drop:
  "length h \<le> 100 \<Longrightarrow>
     (if length (h @ [a]) > 100 then tl (h @ [a]) else h @ [a])
       = drop (length (h @ [a]) - 100) (h @ [a])"
proof (cases "length h = 100")
  case True
  then obtain x xs where "h = x # xs" by (cases h) auto
  then have "tl (h @ [a]) = drop 1 (h @ [a])"
    by simp
  with True show ?thesis by simp
next
  case False
  assume "length h \<le> 100"
  with False show ?thesis by simp
qed

lemma keep_last_append:
  "drop (length (drop (length xs - n) xs @ ys) - n) (drop (length xs - n) xs @ ys)
     = drop (length (xs @ ys) - n) (xs @ ys)"
proof (cases "length xs \<le> n")
  case True
  then show ?thesis by simp
next
  case False
  then have "length (drop (length xs - n) xs) = n" by simp
  then have "drop (length (drop (length xs - n) xs @ ys) - n) (drop (length xs - n) xs @ ys)
               = drop (length ys) (drop (length xs - n) xs @ ys)"
    by simp
  also have "\<dots> = drop (length ys) (drop (length xs - n) (xs @ ys))"
    using False by simp
  also have "\<dots> = drop (length (xs @ ys) - n) (xs @ ys)"
    using False by (simp add: add.commute)
  finally show ?thesis .
qed

lemma heal_all_history:
  "length (healingHistory sys) \<le> 100 \<Longrightarrow>
     \<exists>as. list_all2 (\<lambda>a c. att_id a = heal_fresh (fst c) \<and> errorType a = errorText (snd c)) as calls
        \<and> healingHistory (heal_all sys calls)
            = drop (length (healingHistory sys @ as) - 100) (healingHistory sys @ as)"
proof (induction calls arbitrary: sys)
  case Nil
  then show ?case by simp
next
  case (Cons c cs)
  let ?h = "healingHistory sys"
  let ?sys' = "snd (heal sys (fst c) (snd c))"
  obtain a where a: "att_id a = heal_fresh (fst c) \<and> errorType a = errorText (snd c)"
    and h': "healingHistory ?sys'
               = (if length (?h @ [a]) > 100 then tl (?h @ [a]) else ?h @ [a])"
    using heal_pushes[of "fst c" "snd c" sys] by blast
  have drop': "healingHistory ?sys' = drop (length (?h @ [a]) - 100) (?h @ [a])"
    using h' shift_is_drop[OF Cons.prems, of a] by simp
  then have "length (healingHistory ?sys') \<le> 100"
    using Cons.prems by simp
  from Cons.IH[OF this] obtain as where
    rel: "list_all2 (\<lambda>a c. att_id a = heal_fresh (fst c) \<and> errorType a = errorText (snd c)) as cs"
    and fin: "healingHistory (heal_all ?sys' cs)
            = drop (length (healingHistory ?sys' @ as) - 100) (healingHistory ?sys' @ as)"
    by blast
  have "healingHistory (heal_all sys (c # cs))
          = drop (length ((?h @ [a]) @ as) - 100) ((?h @ [a]) @ as)"
    using fin keep_last_append[of "?h @ [a]" 100 as] by (simp only: heal_all.simps drop')
  then have "healingHistory (heal_all sys (c # cs))
          = drop (length (?h @ a # as) - 100) (?h @ a # as)"
    by simp
  moreover have "list_all2 (\<lambda>a c. att_id a = heal_fresh (fst c) \<and> errorType a = errorText (snd c))
                   (a # as) (c # cs)"
    using a rel by simp
  ultimately show ?case by blast
qed

lemma new_SelfHealingSystem_history: "healingHistory new_SelfHealingSystem = []"
  by (simp add: new_SelfHealingSystem_def initializeDefaultStrategies_def registerStrategy_def)

text \<open>
  Claim C6. Each call of \<open>heal\<close> pushes exactly one attempt, the one of this call, and
  drops the oldest entry when that makes the history longer than 100; a history of at
  most 100 entries stays so. After any sequence of calls on a new system the history
  is the attempts of the calls, in order, without all but the last 100: its length is
  the number of calls or 100, whichever is less. After 102 calls it has 100 entries,
  the attempts of all calls but the first two.
\<close>

theorem healingHistory_bounded:
  "(length (healingHistory sys) \<le> 100 \<longrightarrow> length (healingHistory (snd (heal sys env e))) \<le> 100)
   \<and> (\<exists>a. att_id a = heal_fresh env \<and> errorType a = errorText e
        \<and> healingHistory (snd (heal sys env e))
            = (if length (healingHistory sys @ [a]) > 100 then tl (healingHistory sys @ [a])
               else healingHistory sys @ [a]))
   \<and> (\<exists>as. list_all2 (\<lambda>a c. att_id a = heal_fresh (fst c) \<and> errorType a = errorText (snd c))
              as calls
        \<and> healingHistory (heal_all new_SelfHealingSystem calls) = drop (length calls - 100) as
        \<and> length (healingHistory (heal_all new_SelfHealingSystem calls)) = min 100 (length calls)
        \<and> (length calls = 102 \<longrightarrow>
             healingHistory (heal_all new_SelfHealingSystem calls) = drop 2 as
             \<and> length (healingHistory (heal_all new_SelfHealingSystem calls)) = 100))"
proof -
  obtain a where a: "att_id a = heal_fresh env \<and> errorType a = errorText e
        \<and> healingHistory (snd (heal sys env e))
            = (if length (healingHistory sys @ [a]) > 100 then tl (healingHistory sys @ [a])
               else healingHistory sys @ [a])"
    using heal_pushes[of env e sys] by blast
  have bound: "length (healingHistory sys) \<le> 100 \<Longrightarrow>
                 length (healingHistory (snd (heal sys env e))) \<le> 100"
    using a by (simp split: if_splits)
  obtain as where
    rel: "list_all2 (\<lambda>a c. att_id a = heal_fresh (fst c) \<and> errorType a = errorText (snd c)) as calls"
    and fin: "healingHistory (heal_all new_SelfHealingSystem calls)
            = drop (length (healingHistory new_SelfHealingSystem @ as) - 100)
                (healingHistory new_SelfHealingSystem @ as)"
    using heal_all_history[of new_SelfHealingSystem calls]
    by (auto simp: new_SelfHealingSystem_history)
  have len: "length as = length calls"
    using rel by (rule list_all2_lengthD)
  have hist: "healingHistory (heal_all new_SelfHealingSystem calls) = drop (length calls - 100) as"
    using fin len by (simp add: new_SelfHealingSystem_history)
  have size: "length (healingHistory (heal_all new_SelfHealingSystem calls)) = min 100 (length calls)"
    using hist len by simp
  have "length calls = 102 \<Longrightarrow>
             healingHistory (heal_all new_SelfHealingSystem calls) = drop 2 as
             \<and> length (healingHistory (heal_all new_SelfHealingSystem calls)) = 100"
    using hist size by simp
  then show ?thesis
    using a bound rel hist size by blast
qed

theorem healingHistory_bounded_witness:
  "length (healingHistory new_SelfHealingSystem) \<le> 100
   \<and> length (healingHistory (snd (heal new_SelfHealingSystem sample_heal_env unknown_error))) \<le> 100
   \<and> length (replicate 102 (sample_heal_env, unknown_error)) = 102
   \<and> length (healingHistory (heal_all new_SelfHealingSystem
        (replicate 102 (sample_heal_env, unknown_error)))) = 100"
proof -
  have start: "length (healingHistory new_SelfHealingSystem) \<le> 100"
    by (simp add: new_SelfHealingSystem_history)
  have many: "length (replicate 102 (sample_heal_env, unknown_error)) = 102"
    by simp
  show ?thesis
    using healingHistory_bounded [of new_SelfHealingSystem sample_heal_env unknown_error
        "replicate 102 (sample_heal_env, unknown_error)"] start many
    by auto
qed

section \<open>The pattern learner\<close>

lemmas fl64_eval =
  js_add_def js_mul_def js_div_def fl64_def exponent2_def scale2_def round_even_def
  compute_floorlog Let_def

lemma fl64_third: "fl64 (1 / 3) = 6004799503160661 / 18014398509481984"
  by (simp add: fl64_eval)

lemma fl64_tenth: "js_div 1 10 = 3602879701896397 / 36028797018963968"
  by (simp add: fl64_eval)











end
